theory Spec2Isabelle
  imports Main "HOL-Library.Word"
begin

section \<open>Platform values\<close>

text \<open>
  The library runs in a browser. What the browser provides (the URL parser, the
  secure random source, the SHA-256 digest, \<open>window.location\<close>, the clock and the
  token endpoint behind \<open>fetch\<close>) is taken as a parameter of the model; what the
  repository's own code computes is translated function by function.

  Strings are byte lists: a \<^typ>\<open>string\<close> stands for the UTF-8 bytes of the
  JavaScript string, so that \<open>TextEncoder.encode\<close> is the identity on bytes.
  Numbers are restricted to the integers (epoch milliseconds, seconds) and \<open>NaN\<close>,
  with exact arithmetic. A JavaScript number is a double: the model agrees with the
  code on the safe integers (\<open>safe_integer\<close> below), where \<open>+\<close> and \<open>*\<close> are exact and
  \<open>Number.toString\<close> writes plain decimal digits. Beyond \<open>2^53\<close> the code's results are
  rounded, and from \<open>10^21\<close> on \<open>Number.toString\<close> writes exponent notation; statements
  about a number the code computes and writes assume the operands and the result safe.
\<close>

type_synonym byte = "8 word"

datatype jsnum = Num int | NaN

text \<open>\<open>Number.isSafeInteger\<close>: at most \<open>2^53 - 1\<close> in magnitude.\<close>

definition safe_integer :: "int \<Rightarrow> bool" where
  "safe_integer n = (- 9007199254740991 \<le> n \<and> n \<le> 9007199254740991)"

text \<open>A parsed \<open>URL\<close> object: everything before the query, and \<open>searchParams\<close>.\<close>

record url =
  href_base :: string
  searchParams :: "(string \<times> string) list"

record platform =
  parseURL :: "string \<Rightarrow> url option"
  random :: "nat \<Rightarrow> byte"
  digest :: "byte list \<Rightarrow> byte list"
  origin :: string
  window_href :: string

text \<open>JavaScript truthiness of \<open>string | null | undefined\<close> and of \<open>number | null\<close>.\<close>

fun truthy :: "string option \<Rightarrow> bool" where
  "truthy None = False"
| "truthy (Some s) = (s \<noteq> [])"

fun truthy_num :: "jsnum option \<Rightarrow> bool" where
  "truthy_num None = False"
| "truthy_num (Some NaN) = False"
| "truthy_num (Some (Num n)) = (n \<noteq> 0)"

subsection \<open>\<open>Number.prototype.toString\<close> and \<open>parseInt(_, 10)\<close> on integers\<close>

definition digit_char :: "int \<Rightarrow> char" where
  "digit_char d = char_of (48 + d)"

definition is_digit :: "char \<Rightarrow> bool" where
  "is_digit c = (48 \<le> (of_char c :: int) \<and> (of_char c :: int) \<le> 57)"

definition digit_val :: "char \<Rightarrow> int" where
  "digit_val c = of_char c - 48"

function digits :: "int \<Rightarrow> string" where
  "digits n = (if n < 10 then [digit_char n] else digits (n div 10) @ [digit_char (n mod 10)])"
  by pat_completeness auto
termination
  by (relation "measure nat") auto

text \<open>
  The same equation with the test as an argument, so that \<open>digits\<close> of a numeral
  evaluates by rewriting.
\<close>

fun digits_step :: "bool \<Rightarrow> int \<Rightarrow> string" where
  "digits_step True n = [digit_char n]"
| "digits_step False n = digits (n div 10) @ [digit_char (n mod 10)]"

definition number_toString :: "int \<Rightarrow> string" where
  "number_toString n = (if n < 0 then CHR ''-'' # digits (- n) else digits n)"

definition is_space :: "char \<Rightarrow> bool" where
  "is_space c = ((of_char c :: int) \<in> {9, 10, 11, 12, 13, 32})"

definition digits_value :: "string \<Rightarrow> int" where
  "digits_value ds = foldl (\<lambda>acc c. acc * 10 + digit_val c) 0 ds"

definition parseInt :: "string \<Rightarrow> jsnum" where
  "parseInt s =
     (let t = dropWhile is_space s;
          neg = (t \<noteq> [] \<and> hd t = CHR ''-'');
          u = (if t \<noteq> [] \<and> (hd t = CHR ''-'' \<or> hd t = CHR ''+'') then tl t else t);
          ds = takeWhile is_digit u
      in if ds = [] then NaN
         else Num ((if neg then - 1 else 1) * digits_value ds))"

section \<open>\<open>src/core/constants.ts\<close>\<close>

definition ACCESS_TOKEN :: string where "ACCESS_TOKEN = ''access_token''"
definition REFRESH_TOKEN :: string where "REFRESH_TOKEN = ''refresh_token''"
definition ID_TOKEN :: string where "ID_TOKEN = ''id_token''"
definition EXPIRES_AT :: string where "EXPIRES_AT = ''expires_at''"
definition SCOPE :: string where "SCOPE = ''scope''"
definition CODE_VERIFIER :: string where "CODE_VERIFIER = ''code_verifier''"
definition STATE :: string where "STATE = ''state''"

definition STORAGE_KEYS :: "string list" where
  "STORAGE_KEYS = [ACCESS_TOKEN, REFRESH_TOKEN, ID_TOKEN, EXPIRES_AT, SCOPE, CODE_VERIFIER, STATE]"

section \<open>\<open>src/utils/storage.ts\<close>: class \<open>TokenStorage\<close>\<close>

text \<open>
  The Web Storage object is a finite map from keys to strings: \<open>getItem\<close> is the
  lookup (\<open>None\<close> for \<open>null\<close>), \<open>setItem\<close> the update, \<open>removeItem\<close> the deletion.
  Quota errors of \<open>setItem\<close> are outside the model.
\<close>

type_synonym Storage = "string \<rightharpoonup> string"

record TokenStorage =
  storage :: Storage
  prefix :: string

definition getKey :: "TokenStorage \<Rightarrow> string \<Rightarrow> string" where
  "getKey ts key = prefix ts @ key"

definition getItem :: "TokenStorage \<Rightarrow> string \<Rightarrow> string option" where
  "getItem ts key = storage ts (getKey ts key)"

definition setItem :: "string \<Rightarrow> string \<Rightarrow> TokenStorage \<Rightarrow> TokenStorage" where
  "setItem key v ts = ts\<lparr>storage := (storage ts)(getKey ts key \<mapsto> v)\<rparr>"

definition removeItem :: "string \<Rightarrow> TokenStorage \<Rightarrow> TokenStorage" where
  "removeItem key ts = ts\<lparr>storage := (storage ts)(getKey ts key := None)\<rparr>"

definition setAccessToken :: "string \<Rightarrow> TokenStorage \<Rightarrow> TokenStorage" where
  "setAccessToken token = setItem ACCESS_TOKEN token"

definition getAccessToken_storage :: "TokenStorage \<Rightarrow> string option" where
  "getAccessToken_storage ts = getItem ts ACCESS_TOKEN"

definition setRefreshToken :: "string \<Rightarrow> TokenStorage \<Rightarrow> TokenStorage" where
  "setRefreshToken token = setItem REFRESH_TOKEN token"

definition getRefreshToken :: "TokenStorage \<Rightarrow> string option" where
  "getRefreshToken ts = getItem ts REFRESH_TOKEN"

definition setIdToken :: "string \<Rightarrow> TokenStorage \<Rightarrow> TokenStorage" where
  "setIdToken token = setItem ID_TOKEN token"

definition getIdToken :: "TokenStorage \<Rightarrow> string option" where
  "getIdToken ts = getItem ts ID_TOKEN"

definition setExpiresAt :: "int \<Rightarrow> TokenStorage \<Rightarrow> TokenStorage" where
  "setExpiresAt expiresAt = setItem EXPIRES_AT (number_toString expiresAt)"

definition getExpiresAt :: "TokenStorage \<Rightarrow> jsnum option" where
  "getExpiresAt ts =
     (case getItem ts EXPIRES_AT of
        None \<Rightarrow> None
      | Some v \<Rightarrow> if v \<noteq> [] then Some (parseInt v) else None)"

definition setScope :: "string \<Rightarrow> TokenStorage \<Rightarrow> TokenStorage" where
  "setScope s = setItem SCOPE s"

definition getScope :: "TokenStorage \<Rightarrow> string option" where
  "getScope ts = getItem ts SCOPE"

definition setCodeVerifier :: "string \<Rightarrow> TokenStorage \<Rightarrow> TokenStorage" where
  "setCodeVerifier verifier = setItem CODE_VERIFIER verifier"

definition getCodeVerifier :: "TokenStorage \<Rightarrow> string option" where
  "getCodeVerifier ts = getItem ts CODE_VERIFIER"

definition setState :: "string \<Rightarrow> TokenStorage \<Rightarrow> TokenStorage" where
  "setState s = setItem STATE s"

definition getState :: "TokenStorage \<Rightarrow> string option" where
  "getState ts = getItem ts STATE"

definition clear :: "TokenStorage \<Rightarrow> TokenStorage" where
  "clear ts = fold removeItem STORAGE_KEYS ts"

definition clearTemporary :: "TokenStorage \<Rightarrow> TokenStorage" where
  "clearTemporary ts = removeItem STATE (removeItem CODE_VERIFIER ts)"

section \<open>\<open>src/utils/crypto.ts\<close>\<close>

definition charset :: string where
  "charset = ''ABCDEFGHIJKLMNOPQRSTUVWXYZabcdefghijklmnopqrstuvwxyz0123456789-._~''"

text \<open>
  \<open>crypto.getRandomValues(new Uint8Array(length))\<close>: the next \<open>length\<close> bytes of the
  platform's random sequence, read from position \<open>pos\<close>.
\<close>

definition getRandomValues :: "platform \<Rightarrow> nat \<Rightarrow> nat \<Rightarrow> byte list" where
  "getRandomValues env pos len = map (random env) [pos ..< pos + len]"

definition generateRandomString :: "platform \<Rightarrow> nat \<Rightarrow> nat \<Rightarrow> string" where
  "generateRandomString env pos len =
     map (\<lambda>value. charset ! (unat value mod length charset)) (getRandomValues env pos len)"

definition encode :: "string \<Rightarrow> byte list" where
  "encode plain = map of_char plain"

definition sha256 :: "platform \<Rightarrow> string \<Rightarrow> byte list" where
  "sha256 env plain = digest env (encode plain)"

text \<open>
  \<open>btoa\<close> on a binary string, whose characters are the bytes: the Base64 encoding
  with the standard alphabet and \<open>=\<close> padding.
\<close>

definition b64_alphabet :: string where
  "b64_alphabet = ''ABCDEFGHIJKLMNOPQRSTUVWXYZabcdefghijklmnopqrstuvwxyz0123456789+/''"

definition b64_char :: "nat \<Rightarrow> char" where
  "b64_char i = b64_alphabet ! i"

fun btoa :: "byte list \<Rightarrow> string" where
  "btoa [] = []"
| "btoa [a] =
     [b64_char (unat a div 4), b64_char (unat a mod 4 * 16), CHR ''='', CHR ''='']"
| "btoa [a, b] =
     [b64_char (unat a div 4), b64_char (unat a mod 4 * 16 + unat b div 16),
      b64_char (unat b mod 16 * 4), CHR ''='']"
| "btoa (a # b # c # rest) =
     [b64_char (unat a div 4), b64_char (unat a mod 4 * 16 + unat b div 16),
      b64_char (unat b mod 16 * 4 + unat c div 64), b64_char (unat c mod 64)] @ btoa rest"

text \<open>Both replacements of \<open>base64UrlEncode\<close> on one character.\<close>

definition url_safe :: "char \<Rightarrow> char" where
  "url_safe = (\<lambda>c. if c = CHR ''/'' then CHR ''_'' else c) \<circ> (\<lambda>c. if c = CHR ''+'' then CHR ''-'' else c)"

definition replace_char :: "char \<Rightarrow> char \<Rightarrow> string \<Rightarrow> string" where
  "replace_char old new s = map (\<lambda>c. if c = old then new else c) s"

definition remove_char :: "char \<Rightarrow> string \<Rightarrow> string" where
  "remove_char old s = filter (\<lambda>c. c \<noteq> old) s"

definition base64UrlEncode :: "byte list \<Rightarrow> string" where
  "base64UrlEncode buffer =
     remove_char CHR ''=''
       (replace_char CHR ''/'' CHR ''_'' (replace_char CHR ''+'' CHR ''-'' (btoa buffer)))"

definition generatePKCEParams :: "platform \<Rightarrow> nat \<Rightarrow> string \<times> string" where
  "generatePKCEParams env pos =
     (let codeVerifier = generateRandomString env pos 128;
          hashed = sha256 env codeVerifier;
          codeChallenge = base64UrlEncode hashed
      in (codeVerifier, codeChallenge))"

text \<open>
  \<open>validateState(received, stored)\<close>. The caller passes \<open>params.state\<close>, which is
  \<open>undefined\<close> when the callback has no \<open>state\<close> parameter: \<open>undefined === stored\<close> is
  false and the length is not read.
\<close>

definition validateState :: "string option \<Rightarrow> string \<Rightarrow> bool" where
  "validateState received stored =
     (case received of None \<Rightarrow> False | Some r \<Rightarrow> r = stored \<and> length r > 0)"

subsection \<open>What the specification asks of the PKCE pair\<close>


text \<open>
  The base64url encoding without padding, written from RFC 4648, section 5, not from
  the code: the URL-safe alphabet, and a final group of one or two bytes gives two or
  three characters.
\<close>

definition b64url_alphabet :: string where
  "b64url_alphabet = ''ABCDEFGHIJKLMNOPQRSTUVWXYZabcdefghijklmnopqrstuvwxyz0123456789-_''"

definition b64url_char :: "nat \<Rightarrow> char" where
  "b64url_char i = b64url_alphabet ! i"

fun base64url_nopad :: "byte list \<Rightarrow> string" where
  "base64url_nopad [] = []"
| "base64url_nopad [a] = [b64url_char (unat a div 4), b64url_char (unat a mod 4 * 16)]"
| "base64url_nopad [a, b] =
     [b64url_char (unat a div 4), b64url_char (unat a mod 4 * 16 + unat b div 16),
      b64url_char (unat b mod 16 * 4)]"
| "base64url_nopad (a # b # c # rest) =
     [b64url_char (unat a div 4), b64url_char (unat a mod 4 * 16 + unat b div 16),
      b64url_char (unat b mod 16 * 4 + unat c div 64), b64url_char (unat c mod 64)]
     @ base64url_nopad rest"

section \<open>\<open>src/utils/url.ts\<close>\<close>

datatype thrown =
    OAuth2Err string "string option" "string option"
  | Error string
  | TypeError
  | FetchFailed

text \<open>
  An object literal is the list of its own properties in insertion order; assigning
  an existing key keeps its place, as the spread \<open>...additionalParams\<close> does. (The
  engine lists integer-like keys first; only membership is used below.)
\<close>

fun set_property :: "string \<Rightarrow> 'v \<Rightarrow> (string \<times> 'v) list \<Rightarrow> (string \<times> 'v) list" where
  "set_property k v [] = [(k, v)]"
| "set_property k v ((k', v') # ps) =
     (if k = k' then (k, v) # ps else (k', v') # set_property k v ps)"

definition get_property :: "(string \<times> 'v) list \<Rightarrow> string \<Rightarrow> 'v option" where
  "get_property obj k = map_of obj k"

fun spread :: "(string \<times> string option) list \<Rightarrow> (string \<times> string) list
    \<Rightarrow> (string \<times> string option) list" where
  "spread obj [] = obj"
| "spread obj ((k, v) # others) = spread (set_property k (Some v) obj) others"

fun defined_entries :: "(string \<times> string option) list \<Rightarrow> (string \<times> string) list" where
  "defined_entries [] = []"
| "defined_entries ((key, None) # ps) = defined_entries ps"
| "defined_entries ((key, Some v) # ps) = (key, v) # defined_entries ps"

definition buildUrl :: "platform \<Rightarrow> string \<Rightarrow> (string \<times> string option) list \<Rightarrow> thrown + url" where
  "buildUrl env baseUrl params =
     (case parseURL env baseUrl of
        None \<Rightarrow> Inl TypeError
      | Some u \<Rightarrow> Inr (u\<lparr>searchParams := searchParams u @ defined_entries params\<rparr>))"

definition parseQueryParams :: "platform \<Rightarrow> string \<Rightarrow> thrown + (string \<times> string) list" where
  "parseQueryParams env u =
     (case parseURL env u of
        None \<Rightarrow> Inl TypeError
      | Some urlObj \<Rightarrow> Inr (fold (\<lambda>(key, v) params. set_property key v params) (searchParams urlObj) []))"

section \<open>\<open>src/core/types.ts\<close>\<close>

text \<open>
  \<open>Required<OAuth2Config>\<close> without the storage object and the two callbacks: the
  storage is part of the service state, and a callback is recorded as an event.
\<close>

record OAuth2Config =
  clientId :: string
  authorizationEndpoint :: string
  tokenEndpoint :: string
  redirectUri :: string
  config_scope :: string
  logoutEndpoint :: string
  autoRefresh :: bool
  refreshBufferTime :: int
  storageKeyPrefix :: string
  debug :: bool

record TokenResponse =
  access_token :: string
  token_type :: string
  expires_in :: "int option"
  refresh_token :: "string option"
  scope :: "string option"
  id_token :: "string option"

record TokenRequestParams =
  grant_type :: string
  code :: "string option"
  refresh_token_param :: "string option"
  client_id :: string
  redirect_uri :: "string option"
  code_verifier :: "string option"

text \<open>
  What \<open>fetch\<close> gives back for one token request: a response with \<open>ok\<close> status and a
  token set, a response with another status and an error body, or no usable response
  (the request is rejected, or the body is not JSON).
\<close>

datatype fetch_result =
    ResponseOk TokenResponse
  | ResponseNotOk string "string option" "string option"
  | NoResponse

datatype event = AuthStateChange bool | TokenRefresh TokenResponse

datatype outcome = Fulfilled | Rejected thrown

datatype target = Serialized url | Raw string

section \<open>\<open>src/core/OAuth2Service.ts\<close>: class \<open>OAuth2Service\<close>\<close>

text \<open>
  The mutable part of a service instance, and what it has done to the world:
  \<^item> \<open>tokenStorage\<close> is the field \<open>storage\<close>;
  \<^item> \<open>refreshTimer\<close> is the pending timer, by the time at which it fires (\<open>None\<close>
    after \<open>clearTimeout\<close>);
  \<^item> \<open>refreshPromise\<close> is the in-flight marker, the identity of a promise;
    \<open>promises\<close> gives the outcome of a settled promise and \<open>None\<close> for a pending one;
  \<^item> \<open>requests\<close> are the token requests sent with \<open>fetch\<close>, oldest first;
  \<^item> \<open>events\<close> are the calls of \<open>onAuthStateChange\<close> and \<open>onTokenRefresh\<close>, oldest
    first;
  \<^item> \<open>location_href\<close> is the last value assigned to \<open>window.location.href\<close>;
  \<^item> \<open>rng_pos\<close> counts the random bytes consumed.
  Logging (\<open>handleError\<close>, \<open>log\<close>) changes none of these and is left out.
\<close>

record OAuth2Service =
  tokenStorage :: TokenStorage
  refreshTimer :: "int option"
  refreshPromise :: "nat option"
  promises :: "nat \<rightharpoonup> outcome"
  next_promise :: nat
  requests :: "TokenRequestParams list"
  events :: "event list"
  location_href :: "target option"
  rng_pos :: nat

definition when_truthy :: "string option \<Rightarrow> (string \<Rightarrow> 'a \<Rightarrow> 'a) \<Rightarrow> 'a \<Rightarrow> 'a" where
  "when_truthy v f x = (case v of None \<Rightarrow> x | Some s \<Rightarrow> if s \<noteq> [] then f s x else x)"

text \<open>\<open>Date.now() >= expiresAt\<close>: \<open>null\<close> converts to \<open>0\<close>, and \<open>NaN\<close> compares false.\<close>

fun now_ge :: "int \<Rightarrow> jsnum option \<Rightarrow> bool" where
  "now_ge now None = (now \<ge> 0)"
| "now_ge now (Some NaN) = False"
| "now_ge now (Some (Num e)) = (now \<ge> e)"

definition authorize :: "OAuth2Config \<Rightarrow> platform \<Rightarrow> (string \<times> string) list \<Rightarrow> OAuth2Service
    \<Rightarrow> outcome \<times> OAuth2Service" where
  "authorize cfg env additionalParams st =
     (let (codeVerifier, codeChallenge) = generatePKCEParams env (rng_pos st);
          state = generateRandomString env (rng_pos st + 128) 32;
          st1 = st\<lparr>rng_pos := rng_pos st + 128 + 32,
                   tokenStorage := setState state (setCodeVerifier codeVerifier (tokenStorage st))\<rparr>;
          params = spread
            [(''response_type'', Some ''code''),
             (''client_id'', Some (clientId cfg)),
             (''redirect_uri'', Some (redirectUri cfg)),
             (''scope'', Some (config_scope cfg)),
             (''state'', Some state),
             (''code_challenge'', Some codeChallenge),
             (''code_challenge_method'', Some ''S256'')]
            additionalParams
      in case buildUrl env (authorizationEndpoint cfg) params of
           Inl e \<Rightarrow> (Rejected e, st1)
         | Inr authUrl \<Rightarrow> (Fulfilled, st1\<lparr>location_href := Some (Serialized authUrl)\<rparr>))"

definition send_request :: "TokenRequestParams \<Rightarrow> OAuth2Service \<Rightarrow> OAuth2Service" where
  "send_request params st = st\<lparr>requests := requests st @ [params]\<rparr>"

definition receive :: "fetch_result \<Rightarrow> thrown + TokenResponse" where
  "receive resp =
     (case resp of
        ResponseOk tokens \<Rightarrow> Inr tokens
      | ResponseNotOk e d u \<Rightarrow> Inl (OAuth2Err e d u)
      | NoResponse \<Rightarrow> Inl FetchFailed)"

definition makeTokenRequest :: "TokenRequestParams \<Rightarrow> fetch_result \<Rightarrow> OAuth2Service
    \<Rightarrow> (thrown + TokenResponse) \<times> OAuth2Service" where
  "makeTokenRequest params resp st = (receive resp, send_request params st)"

definition storeTokens :: "int \<Rightarrow> TokenResponse \<Rightarrow> OAuth2Service \<Rightarrow> OAuth2Service" where
  "storeTokens now tokens st =
     (let ts1 = setAccessToken (access_token tokens) (tokenStorage st);
          ts2 = when_truthy (refresh_token tokens) setRefreshToken ts1;
          ts3 = when_truthy (id_token tokens) setIdToken ts2;
          ts4 = when_truthy (scope tokens) setScope ts3;
          ts5 = (case expires_in tokens of
                   None \<Rightarrow> ts4
                 | Some n \<Rightarrow> if n \<noteq> 0 then setExpiresAt (now + n * 1000) ts4 else ts4)
      in st\<lparr>tokenStorage := ts5\<rparr>)"

definition scheduleTokenRefresh :: "OAuth2Config \<Rightarrow> int \<Rightarrow> OAuth2Service \<Rightarrow> OAuth2Service" where
  "scheduleTokenRefresh cfg now st =
     (if \<not> autoRefresh cfg then st
      else let st1 = st\<lparr>refreshTimer := None\<rparr>
           in case getExpiresAt (tokenStorage st1) of
                Some (Num expiresAt) \<Rightarrow>
                  if expiresAt = 0 then st1
                  else let refreshAt = expiresAt - refreshBufferTime cfg * 1000;
                           delay = max 0 (refreshAt - now)
                       in st1\<lparr>refreshTimer := Some (now + delay)\<rparr>
              | _ \<Rightarrow> st1)"

definition logout :: "OAuth2Config \<Rightarrow> platform \<Rightarrow> string option \<Rightarrow> OAuth2Service
    \<Rightarrow> thrown option \<times> OAuth2Service" where
  "logout cfg env redirectTo st =
     (let st1 = st\<lparr>refreshTimer := None\<rparr>;
          st2 = st1\<lparr>tokenStorage := clear (tokenStorage st1)\<rparr>;
          st3 = st2\<lparr>events := events st2 @ [AuthStateChange False]\<rparr>
      in if logoutEndpoint cfg \<noteq> [] then
           (case buildUrl env (logoutEndpoint cfg)
                   [(''client_id'', Some (clientId cfg)),
                    (''post_logout_redirect_uri'',
                       Some (case redirectTo of
                               None \<Rightarrow> origin env
                             | Some r \<Rightarrow> if r \<noteq> [] then r else origin env))] of
              Inl e \<Rightarrow> (Some e, st3)
            | Inr u \<Rightarrow> (None, st3\<lparr>location_href := Some (Serialized u)\<rparr>))
         else (None, when_truthy redirectTo (\<lambda>r s. s\<lparr>location_href := Some (Raw r)\<rparr>) st3))"

definition getAccessToken :: "OAuth2Config \<Rightarrow> platform \<Rightarrow> int \<Rightarrow> OAuth2Service
    \<Rightarrow> (thrown + string option) \<times> OAuth2Service" where
  "getAccessToken cfg env now st =
     (let token = getAccessToken_storage (tokenStorage st);
          expiresAt = getExpiresAt (tokenStorage st)
      in if truthy token \<and> truthy_num expiresAt \<and> now_ge now expiresAt then
           (case logout cfg env None st of
              (Some e, st') \<Rightarrow> (Inl e, st')
            | (None, st') \<Rightarrow> (Inr None, st'))
         else (Inr token, st))"

definition isAuthenticated :: "OAuth2Config \<Rightarrow> platform \<Rightarrow> int \<Rightarrow> OAuth2Service
    \<Rightarrow> (thrown + bool) \<times> OAuth2Service" where
  "isAuthenticated cfg env now st =
     (case getAccessToken cfg env now st of
        (Inl e, st') \<Rightarrow> (Inl e, st')
      | (Inr token, st') \<Rightarrow> (Inr (truthy token), st'))"

text \<open>
  The synchronous block after the token response (\<open>storeTokens\<close>,
  \<open>scheduleTokenRefresh\<close>, the callback) runs at one reading \<open>now\<close> of the clock.
\<close>

text \<open>The \<open>params\<close> objects of \<open>exchangeCodeForToken\<close> and \<open>performRefresh\<close>.\<close>

definition exchange_request :: "OAuth2Config \<Rightarrow> string \<Rightarrow> string \<Rightarrow> TokenRequestParams" where
  "exchange_request cfg authCode codeVerifier =
     \<lparr>grant_type = ''authorization_code'',
      code = Some authCode,
      refresh_token_param = None,
      client_id = clientId cfg,
      redirect_uri = Some (redirectUri cfg),
      code_verifier = Some codeVerifier\<rparr>"

definition refresh_request :: "OAuth2Config \<Rightarrow> string \<Rightarrow> TokenRequestParams" where
  "refresh_request cfg refreshToken =
     \<lparr>grant_type = ''refresh_token'',
      code = None,
      refresh_token_param = Some refreshToken,
      client_id = clientId cfg,
      redirect_uri = None,
      code_verifier = None\<rparr>"

definition exchangeCodeForToken :: "OAuth2Config \<Rightarrow> int \<Rightarrow> fetch_result \<Rightarrow> string \<Rightarrow> string
    \<Rightarrow> OAuth2Service \<Rightarrow> thrown option \<times> OAuth2Service" where
  "exchangeCodeForToken cfg now resp authCode codeVerifier st =
     (let params = exchange_request cfg authCode codeVerifier
      in case makeTokenRequest params resp st of
           (Inl e, st1) \<Rightarrow> (Some e, st1)
         | (Inr tokens, st1) \<Rightarrow>
             (let st2 = storeTokens now tokens st1;
                  st3 = scheduleTokenRefresh cfg now st2
              in (None, st3\<lparr>events := events st3 @ [AuthStateChange True]\<rparr>)))"

text \<open>
  \<open>handleCallback(url)\<close>, with the response \<open>resp\<close> the token endpoint gives if it is
  asked; \<open>callback_url\<close> is \<open>url || window.location.href\<close>. Every \<open>throw\<close> is
  caught, logged and thrown again, so it is the rejection of the returned promise;
  \<open>window.history.replaceState\<close> is left out.
\<close>

definition callback_url :: "platform \<Rightarrow> string option \<Rightarrow> string" where
  "callback_url env url =
     (case url of None \<Rightarrow> window_href env
      | Some u \<Rightarrow> if u \<noteq> [] then u else window_href env)"

definition handleCallback :: "OAuth2Config \<Rightarrow> platform \<Rightarrow> int \<Rightarrow> fetch_result \<Rightarrow> string option
    \<Rightarrow> OAuth2Service \<Rightarrow> outcome \<times> OAuth2Service" where
  "handleCallback cfg env now resp url st =
     (case parseQueryParams env (callback_url env url) of
        Inl e \<Rightarrow> (Rejected e, st)
      | Inr params \<Rightarrow>
          (let after_error_check =
             (case getState (tokenStorage st) of
                None \<Rightarrow> (Rejected (Error ''Invalid state parameter''), st)
              | Some storedState \<Rightarrow>
                  if storedState = [] \<or> \<not> validateState (get_property params ''state'') storedState
                  then (Rejected (Error ''Invalid state parameter''), st)
                  else
                    (case (get_property params ''code'', getCodeVerifier (tokenStorage st)) of
                       (Some authCode, Some codeVerifier) \<Rightarrow>
                         if authCode = [] \<or> codeVerifier = []
                         then (Rejected (Error ''Missing authorization code or code verifier''), st)
                         else
                           (case exchangeCodeForToken cfg now resp authCode codeVerifier st of
                              (Some e, st1) \<Rightarrow> (Rejected e, st1)
                            | (None, st1) \<Rightarrow>
                                (Fulfilled,
                                 st1\<lparr>tokenStorage := clearTemporary (tokenStorage st1)\<rparr>))
                     | _ \<Rightarrow> (Rejected (Error ''Missing authorization code or code verifier''), st)))
           in case get_property params ''error'' of
                None \<Rightarrow> after_error_check
              | Some err \<Rightarrow>
                  if err \<noteq> [] then
                    (Rejected (OAuth2Err err (get_property params ''error_description'')
                                 (get_property params ''error_uri'')), st)
                  else after_error_check))"

text \<open>
  \<open>refreshAccessToken()\<close> suspends at the network round trip, so it is three steps,
  each of which runs to completion without interleaving:
  \<^item> \<open>refreshAccessToken_call\<close>: the call up to its first \<open>await\<close>. It returns the
    promise whose outcome the caller receives: the in-flight one when the marker is
    set, and otherwise the promise of a new \<open>performRefresh()\<close>, run up to its own
    first \<open>await\<close> (\<open>performRefresh_begin\<close>: the request is sent, or the promise is
    rejected at once for want of a refresh token);
  \<^item> \<open>performRefresh_resume\<close>: the rest of \<open>performRefresh()\<close> when \<open>fetch\<close> gives
    \<open>resp\<close>, which settles the promise;
  \<^item> \<open>refreshAccessToken_finally\<close>: the \<open>finally\<close> block of the first caller, run when
    the promise is settled.
\<close>

definition performRefresh_begin :: "OAuth2Config \<Rightarrow> OAuth2Service \<Rightarrow> nat \<times> OAuth2Service" where
  "performRefresh_begin cfg st =
     (let p = next_promise st;
          st0 = st\<lparr>next_promise := Suc p, promises := (promises st)(p := None)\<rparr>;
          no_token = st0\<lparr>promises := (promises st0)(p \<mapsto> Rejected (Error ''No refresh token available''))\<rparr>
      in case getRefreshToken (tokenStorage st) of
           None \<Rightarrow> (p, no_token)
         | Some refreshToken \<Rightarrow>
             if refreshToken = [] then (p, no_token)
             else (p, send_request (refresh_request cfg refreshToken) st0))"

definition performRefresh_resume :: "OAuth2Config \<Rightarrow> platform \<Rightarrow> int \<Rightarrow> fetch_result \<Rightarrow> nat
    \<Rightarrow> OAuth2Service \<Rightarrow> OAuth2Service" where
  "performRefresh_resume cfg env now resp p st =
     (case receive resp of
        Inr tokens \<Rightarrow>
          (let st1 = storeTokens now tokens st;
               st2 = scheduleTokenRefresh cfg now st1;
               st3 = st2\<lparr>events := events st2 @ [TokenRefresh tokens]\<rparr>
           in st3\<lparr>promises := (promises st3)(p \<mapsto> Fulfilled)\<rparr>)
      | Inl e \<Rightarrow>
          (case logout cfg env None st of
             (None, st1) \<Rightarrow> st1\<lparr>promises := (promises st1)(p \<mapsto> Rejected e)\<rparr>
           | (Some e', st1) \<Rightarrow> st1\<lparr>promises := (promises st1)(p \<mapsto> Rejected e')\<rparr>))"

definition refreshAccessToken_call :: "OAuth2Config \<Rightarrow> OAuth2Service \<Rightarrow> nat \<times> OAuth2Service" where
  "refreshAccessToken_call cfg st =
     (case refreshPromise st of
        Some p \<Rightarrow> (p, st)
      | None \<Rightarrow>
          (let (p, st1) = performRefresh_begin cfg st
           in (p, st1\<lparr>refreshPromise := Some p\<rparr>)))"

definition refreshAccessToken_finally :: "OAuth2Service \<Rightarrow> OAuth2Service" where
  "refreshAccessToken_finally st = st\<lparr>refreshPromise := None\<rparr>"

text \<open>
  The outcome becoming known: \<open>performRefresh()\<close> resumes if it waits for the
  network, and the \<open>finally\<close> block runs.
\<close>

definition refresh_settle :: "OAuth2Config \<Rightarrow> platform \<Rightarrow> int \<Rightarrow> fetch_result \<Rightarrow> nat
    \<Rightarrow> OAuth2Service \<Rightarrow> OAuth2Service" where
  "refresh_settle cfg env now resp p st =
     refreshAccessToken_finally
       (if promises st p = None then performRefresh_resume cfg env now resp p st else st)"

text \<open>
  One \<open>await refreshAccessToken()\<close> with no other call in between: the promise the
  call returns, then its settlement. The result is the promise's outcome.
\<close>

definition refreshAccessToken :: "OAuth2Config \<Rightarrow> platform \<Rightarrow> int \<Rightarrow> fetch_result \<Rightarrow> OAuth2Service
    \<Rightarrow> outcome option \<times> OAuth2Service" where
  "refreshAccessToken cfg env now resp st =
     (let (p, st1) = refreshAccessToken_call cfg st;
          st2 = refresh_settle cfg env now resp p st1
      in (promises st2 p, st2))"

text \<open>
  The configuration invariant of the specification: \<open>clientId\<close> and \<open>redirectUri\<close>
  are non-empty, the authorization endpoint is a well-formed URL, and so is the
  logout endpoint when one is configured. (The token endpoint is only passed to
  \<open>fetch\<close>, whose failure is a \<open>fetch_result\<close>.)
\<close>

definition valid_config :: "platform \<Rightarrow> OAuth2Config \<Rightarrow> bool" where
  "valid_config env cfg =
     (clientId cfg \<noteq> [] \<and> redirectUri cfg \<noteq> []
      \<and> parseURL env (authorizationEndpoint cfg) \<noteq> None
      \<and> (logoutEndpoint cfg = [] \<or> parseURL env (logoutEndpoint cfg) \<noteq> None))"

section \<open>Example inputs\<close>

text \<open>
  A platform double in the manner of \<open>tests/setup.ts\<close>, whose \<open>digest\<close> returns a
  zeroed buffer of 32 bytes: the random bytes are zero, and the URL parser knows the
  two callback URLs of the scenarios and takes any other non-empty string as a URL
  without a query.
\<close>

definition test_parseURL :: "string \<Rightarrow> url option" where
  "test_parseURL s =
     (if s = ''https://app/cb?code=XYZ&state=S1'' then
        Some \<lparr>href_base = ''https://app/cb'',
              searchParams = [(''code'', ''XYZ''), (''state'', ''S1'')]\<rparr>
      else if s = ''https://app/cb?error=access_denied'' then
        Some \<lparr>href_base = ''https://app/cb'', searchParams = [(''error'', ''access_denied'')]\<rparr>
      else if s = [] then None
      else Some \<lparr>href_base = s, searchParams = []\<rparr>)"

definition test_platform :: platform where
  "test_platform =
     \<lparr>parseURL = test_parseURL,
      random = (\<lambda>i. 0),
      digest = (\<lambda>data. replicate 32 0),
      origin = ''https://app'',
      window_href = ''https://app/''\<rparr>"

text \<open>The configuration of the specification's scenarios, with the defaults.\<close>

definition test_config :: OAuth2Config where
  "test_config =
     \<lparr>clientId = ''c1'',
      authorizationEndpoint = ''https://a/authorize'',
      tokenEndpoint = ''https://a/token'',
      redirectUri = ''https://app/cb'',
      config_scope = [],
      logoutEndpoint = [],
      autoRefresh = True,
      refreshBufferTime = 300,
      storageKeyPrefix = ''oauth2_'',
      debug = False\<rparr>"

text \<open>A service over a given storage content that has not done anything yet.\<close>

definition service_over :: "Storage \<Rightarrow> OAuth2Service" where
  "service_over store =
     \<lparr>tokenStorage = \<lparr>storage = store, prefix = ''oauth2_''\<rparr>,
      refreshTimer = None,
      refreshPromise = None,
      promises = Map.empty,
      next_promise = 0,
      requests = [],
      events = [],
      location_href = None,
      rng_pos = 0\<rparr>"

text \<open>
  A stored session with access token \<open>A1\<close>, refresh token \<open>R1\<close> and the given
  \<open>expires_at\<close> string; a session with all five session keys stored, expiring at
  5000; a storage that holds nothing but an access token, or
  nothing but the refresh token \<open>R1\<close>; a token
  response with the given access token, \<open>expires_in\<close> and \<open>refresh_token\<close>; and the
  transient flow state of the callback scenario (state \<open>S1\<close>, verifier \<open>V1\<close>).
\<close>

definition session_expiring :: "string \<Rightarrow> OAuth2Service" where
  "session_expiring expires_at =
     service_over [''oauth2_access_token'' \<mapsto> ''A1'', ''oauth2_refresh_token'' \<mapsto> ''R1'',
                   ''oauth2_expires_at'' \<mapsto> expires_at]"

definition full_session :: OAuth2Service where
  "full_session =
     service_over [''oauth2_access_token'' \<mapsto> ''A1'', ''oauth2_refresh_token'' \<mapsto> ''R1'',
                   ''oauth2_id_token'' \<mapsto> ''I1'', ''oauth2_scope'' \<mapsto> ''openid'',
                   ''oauth2_expires_at'' \<mapsto> ''5000'']"

definition session_without_expiry :: "string \<Rightarrow> OAuth2Service" where
  "session_without_expiry token = service_over [''oauth2_access_token'' \<mapsto> token]"

definition test_tokens :: "string \<Rightarrow> int option \<Rightarrow> string option \<Rightarrow> TokenResponse" where
  "test_tokens token expires refresh =
     \<lparr>access_token = token, token_type = ''Bearer'', expires_in = expires,
      refresh_token = refresh, scope = None, id_token = None\<rparr>"

definition refresh_only_session :: OAuth2Service where
  "refresh_only_session = service_over [''oauth2_refresh_token'' \<mapsto> ''R1'']"

definition awaiting_callback :: OAuth2Service where
  "awaiting_callback =
     service_over [''oauth2_state'' \<mapsto> ''S1'', ''oauth2_code_verifier'' \<mapsto> ''V1'']"

section \<open>Numbers as strings\<close>

declare digits.simps [simp del]

lemma digits_code [code]: "digits n = digits_step (n < 10) n"
  by (subst digits.simps) simp

lemma digit_char_is_digit: "0 \<le> d \<Longrightarrow> d < 10 \<Longrightarrow> is_digit (digit_char d)"
  by (simp add: is_digit_def digit_char_def)

lemma digit_val_digit_char: "0 \<le> d \<Longrightarrow> d < 10 \<Longrightarrow> digit_val (digit_char d) = d"
  by (simp add: digit_val_def digit_char_def)

lemma digits_all_digit: "0 \<le> n \<Longrightarrow> list_all is_digit (digits n)"
proof (induction n rule: digits.induct)
  case (1 n)
  have "0 \<le> n mod 10" "n mod 10 < 10" "0 \<le> n div 10" using 1(2) by simp_all
  with 1 show ?case
    by (subst digits.simps) (simp add: digit_char_is_digit)
qed

lemma digits_nonempty: "digits n \<noteq> []"
  by (subst digits.simps) simp

lemma digits_value_append:
  "digits_value (ds @ [c]) = digits_value ds * 10 + digit_val c"
  by (simp add: digits_value_def)

lemma digits_value_digits: "0 \<le> n \<Longrightarrow> digits_value (digits n) = n"
proof (induction n rule: digits.induct)
  case (1 n)
  show ?case
  proof (cases "n < 10")
    case True
    with 1(2) show ?thesis
      by (subst digits.simps) (simp add: digits_value_def digit_val_digit_char)
  next
    case False
    with 1 have "digits_value (digits (n div 10)) = n div 10" by simp
    moreover have "0 \<le> n mod 10" "n mod 10 < 10" by simp_all
    ultimately show ?thesis
      using False by (subst digits.simps) (simp add: digits_value_append digit_val_digit_char)
  qed
qed

lemma is_digit_plain: "is_digit c \<Longrightarrow> \<not> is_space c \<and> c \<noteq> CHR ''-'' \<and> c \<noteq> CHR ''+''"
  by (auto simp: is_digit_def is_space_def)

lemma parseInt_all_digits:
  assumes "list_all is_digit ds" and "ds \<noteq> []"
  shows "parseInt ds = Num (digits_value ds)"
    and "parseInt (CHR ''-'' # ds) = Num (- digits_value ds)"
proof -
  obtain c cs where d: "ds = c # cs" using assms(2) by (cases ds) auto
  have c: "is_digit c" using assms(1) d by simp
  have tw: "takeWhile is_digit ds = ds"
    using assms(1) by (simp add: list_all_iff takeWhile_eq_all_conv)
  have dw: "dropWhile is_space ds = ds"
    using d is_digit_plain [OF c] by simp
  have hd: "hd ds \<noteq> CHR ''-''" "hd ds \<noteq> CHR ''+''"
    using d is_digit_plain [OF c] by simp_all
  show "parseInt ds = Num (digits_value ds)"
    using assms(2) by (simp add: parseInt_def Let_def dw hd tw)
  show "parseInt (CHR ''-'' # ds) = Num (- digits_value ds)"
    using assms(2) by (simp add: parseInt_def Let_def is_space_def tw)
qed

text \<open>
  Reading back a safe integer that was written: \<open>parseInt(n.toString(), 10) = n\<close>.
\<close>

lemma parseInt_number_toString: "safe_integer n \<Longrightarrow> parseInt (number_toString n) = Num n"
  by (simp add: number_toString_def parseInt_all_digits digits_all_digit digits_nonempty
      digits_value_digits)

lemma number_toString_nonempty: "number_toString n \<noteq> []"
  by (simp add: number_toString_def digits_nonempty)

section \<open>The PKCE pair\<close>

lemma b64_index:
  fixes a b c :: byte
  shows "unat a div 4 < 64" and "unat a mod 4 * 16 < 64"
    and "unat a mod 4 * 16 + unat b div 16 < 64" and "unat b mod 16 * 4 < 64"
    and "unat b mod 16 * 4 + unat c div 64 < 64" and "unat c mod 64 < 64"
proof -
  have "unat a < 64 * 4" "unat b < 16 * 16" "unat c < 4 * 64"
    using unsigned_less [of a, where ?'a = nat] unsigned_less [of b, where ?'a = nat]
      unsigned_less [of c, where ?'a = nat] by simp_all
  then have d: "unat a div 4 < 64" "unat b div 16 < 16" "unat c div 64 < 4"
    by (simp_all only: less_mult_imp_div_less)
  have m: "unat a mod 4 < 4" "unat b mod 16 < 16" "unat c mod 64 < 64"
    by simp_all
  show "unat a div 4 < 64" by (rule d)
  show "unat a mod 4 * 16 < 64" using m(1) by linarith
  show "unat a mod 4 * 16 + unat b div 16 < 64" using m(1) d(2) by linarith
  show "unat b mod 16 * 4 < 64" using m(2) by linarith
  show "unat b mod 16 * 4 + unat c div 64 < 64" using m(2) d(3) by linarith
  show "unat c mod 64 < 64" by (rule m)
qed

lemma url_safe_alphabet: "map url_safe b64_alphabet = b64url_alphabet"
  by (simp add: b64_alphabet_def b64url_alphabet_def url_safe_def)

lemma url_safe_b64_char: "i < 64 \<Longrightarrow> url_safe (b64_char i) = b64url_char i"
proof -
  assume i: "i < 64"
  have "length b64_alphabet = 64" by (simp add: b64_alphabet_def)
  with i have "map url_safe b64_alphabet ! i = url_safe (b64_alphabet ! i)" by simp
  then show ?thesis by (simp add: url_safe_alphabet b64_char_def b64url_char_def)
qed

lemma b64url_char_not_pad:
  "i < 64 \<Longrightarrow> b64url_char i \<noteq> CHR ''='' \<and> CHR ''='' \<noteq> b64url_char i"
proof -
  assume i: "i < 64"
  have len: "length b64url_alphabet = 64" by (simp add: b64url_alphabet_def)
  have "CHR ''='' \<notin> set b64url_alphabet" by (simp add: b64url_alphabet_def)
  moreover have "b64url_alphabet ! i \<in> set b64url_alphabet" using i len by simp
  ultimately show ?thesis by (auto simp: b64url_char_def)
qed

lemma base64UrlEncode_eq:
  "base64UrlEncode buffer = filter (\<lambda>c. c \<noteq> CHR ''='') (map url_safe (btoa buffer))"
  by (simp add: base64UrlEncode_def remove_char_def replace_char_def url_safe_def)

text \<open>
  The code's encoder (\<open>btoa\<close>, two replacements, padding removed) computes the
  unpadded base64url encoding of the standard, on every buffer.
\<close>

lemma base64UrlEncode_base64url: "base64UrlEncode buffer = base64url_nopad buffer"
  unfolding base64UrlEncode_eq
  by (induction buffer rule: btoa.induct)
     (simp_all add: url_safe_b64_char b64url_char_not_pad b64_index, simp_all add: url_safe_def)





section \<open>Storage accessors\<close>

lemmas key_defs = ACCESS_TOKEN_def REFRESH_TOKEN_def ID_TOKEN_def EXPIRES_AT_def SCOPE_def
  CODE_VERIFIER_def STATE_def

lemmas getter_defs = getAccessToken_storage_def getRefreshToken_def getIdToken_def
  getScope_def getCodeVerifier_def getState_def

lemmas setter_defs = setAccessToken_def setRefreshToken_def setIdToken_def setScope_def
  setCodeVerifier_def setState_def setExpiresAt_def

lemma getItem_setItem:
  "getItem (setItem k v ts) k' = (if k' = k then Some v else getItem ts k')"
  by (simp add: getItem_def setItem_def getKey_def)

lemma getItem_removeItem:
  "getItem (removeItem k ts) k' = (if k' = k then None else getItem ts k')"
  by (simp add: getItem_def removeItem_def getKey_def)

lemma getItem_clear:
  "getItem (clear ts) k = (if k \<in> set STORAGE_KEYS then None else getItem ts k)"
  by (simp add: clear_def STORAGE_KEYS_def getItem_removeItem)

lemma getItem_clearTemporary:
  "getItem (clearTemporary ts) k =
     (if k = STATE \<or> k = CODE_VERIFIER then None else getItem ts k)"
  by (simp add: clearTemporary_def getItem_removeItem)

section \<open>\<open>authorize\<close>\<close>


lemma set_property_fst:
  "map fst (set_property k v ps) =
     (if k \<in> set (map fst ps) then map fst ps else map fst ps @ [k])"
  by (induction k v ps rule: set_property.induct) (auto simp: rev_image_eqI)

lemma set_property_distinct:
  "distinct (map fst ps) \<Longrightarrow> distinct (map fst (set_property k v ps))"
  by (simp add: set_property_fst)

lemma set_property_map_of:
  "map_of (set_property k v ps) k' = (if k' = k then Some v else map_of ps k')"
  by (induction ps) auto

lemma spread_distinct:
  "distinct (map fst obj) \<Longrightarrow> distinct (map fst (spread obj extra))"
  by (induction extra arbitrary: obj) (auto simp: set_property_distinct)

lemma spread_map_of:
  "map_of (spread obj extra) k =
     (case map_of (rev extra) k of Some v \<Rightarrow> Some (Some v) | None \<Rightarrow> map_of obj k)"
  by (induction extra arbitrary: obj)
     (auto simp: set_property_map_of map_add_def split: option.splits)

lemma defined_entries_mem:
  "((k, v) \<in> set (defined_entries ps)) = ((k, Some v) \<in> set ps)"
  by (induction ps rule: defined_entries.induct) auto

lemma spread_entries:
  assumes "distinct (map fst obj)"
  shows "((k, v) \<in> set (defined_entries (spread obj extra))) =
     (case map_of (rev extra) k of Some v' \<Rightarrow> v = v' | None \<Rightarrow> (k, Some v) \<in> set obj)"
proof -
  have "((k, Some v) \<in> set (spread obj extra)) = (map_of (spread obj extra) k = Some (Some v))"
    using spread_distinct [OF assms, of extra] by simp
  moreover have "((k, Some v) \<in> set obj) = (map_of obj k = Some (Some v))"
    using assms by simp
  ultimately show ?thesis
    by (auto simp: defined_entries_mem spread_map_of split: option.splits)
qed


text \<open>
  Claim C1, as amended. Under a valid configuration \<open>authorize()\<close> succeeds and
  navigates to the authorization endpoint with parameters appended to its query. For
  every parameter name, the appended parameters carry the value the caller-supplied
  extra parameters give it last, if they name it at all: merged last, they override
  every field, \<open>state\<close> and \<open>code_challenge\<close> included. For a name the extra
  parameters do not use, the appended parameters are exactly \<open>response_type=code\<close>,
  the configured \<open>client_id\<close>, \<open>redirect_uri\<close> and \<open>scope\<close>, the \<open>state\<close> that was
  generated and persisted, the \<open>code_challenge\<close> derived from the persisted verifier,
  and \<open>code_challenge_method=S256\<close>.
\<close>

theorem authorize_url:
  assumes "valid_config env cfg"
  shows "\<exists>base appended state verifier.
      parseURL env (authorizationEndpoint cfg) = Some base
    \<and> fst (authorize cfg env additionalParams st) = Fulfilled
    \<and> location_href (snd (authorize cfg env additionalParams st))
        = Some (Serialized (base\<lparr>searchParams := searchParams base @ appended\<rparr>))
    \<and> getState (tokenStorage (snd (authorize cfg env additionalParams st))) = Some state
    \<and> getCodeVerifier (tokenStorage (snd (authorize cfg env additionalParams st)))
        = Some verifier
    \<and> (\<forall>k v. ((k, v) \<in> set appended) =
          (case map_of (rev additionalParams) k of
             Some v' \<Rightarrow> v = v'
           | None \<Rightarrow>
               (k, v) \<in> set
                 [(''response_type'', ''code''),
                  (''client_id'', clientId cfg),
                  (''redirect_uri'', redirectUri cfg),
                  (''scope'', config_scope cfg),
                  (''state'', state),
                  (''code_challenge'', base64url_nopad (digest env (encode verifier))),
                  (''code_challenge_method'', ''S256'')]))"
proof -
  obtain base where base: "parseURL env (authorizationEndpoint cfg) = Some base"
    using assms by (auto simp: valid_config_def)
  define verifier where "verifier = generateRandomString env (rng_pos st) 128"
  define state where "state = generateRandomString env (rng_pos st + 128) 32"
  define challenge where "challenge = base64url_nopad (digest env (encode verifier))"
  define obj where "obj =
    [(''response_type'', Some ''code''),
     (''client_id'', Some (clientId cfg)),
     (''redirect_uri'', Some (redirectUri cfg)),
     (''scope'', Some (config_scope cfg)),
     (''state'', Some state),
     (''code_challenge'', Some challenge),
     (''code_challenge_method'', Some ''S256'')]"
  define appended where "appended = defined_entries (spread obj additionalParams)"
  have pk: "generatePKCEParams env (rng_pos st) = (verifier, challenge)"
    by (simp add: generatePKCEParams_def Let_def verifier_def challenge_def
        base64UrlEncode_base64url sha256_def)
  have run: "authorize cfg env additionalParams st =
      (Fulfilled,
       st\<lparr>rng_pos := rng_pos st + 128 + 32,
          tokenStorage := setState state (setCodeVerifier verifier (tokenStorage st)),
          location_href := Some (Serialized (base\<lparr>searchParams := searchParams base @ appended\<rparr>))\<rparr>)"
    by (simp add: authorize_def pk Let_def buildUrl_def base state_def [symmetric]
        obj_def [symmetric] appended_def [symmetric])
  have dist: "distinct (map fst obj)"
    by (simp add: obj_def)
  have entries: "((k, v) \<in> set appended) =
      (case map_of (rev additionalParams) k of
         Some v' \<Rightarrow> v = v'
       | None \<Rightarrow>
           (k, v) \<in> set
             [(''response_type'', ''code''),
              (''client_id'', clientId cfg),
              (''redirect_uri'', redirectUri cfg),
              (''scope'', config_scope cfg),
              (''state'', state),
              (''code_challenge'', challenge),
              (''code_challenge_method'', ''S256'')])" for k v
    unfolding appended_def spread_entries [OF dist]
    by (auto simp: obj_def split: option.splits)
  have st: "getState (tokenStorage (snd (authorize cfg env additionalParams st))) = Some state"
    by (simp add: run getter_defs setter_defs getItem_setItem)
  have ver: "getCodeVerifier (tokenStorage (snd (authorize cfg env additionalParams st)))
      = Some verifier"
    by (simp add: run getter_defs setter_defs getItem_setItem key_defs)
  show ?thesis
    using base run st ver entries unfolding challenge_def
    by (intro exI [of _ base] exI [of _ appended] exI [of _ state] exI [of _ verifier]) simp
qed

theorem authorize_url_witness:
  "valid_config test_platform test_config
   \<and> (\<exists>base appended state.
        location_href (snd (authorize test_config test_platform [(''prompt'', ''consent'')]
            (service_over Map.empty)))
          = Some (Serialized (base\<lparr>searchParams := searchParams base @ appended\<rparr>))
      \<and> getState (tokenStorage (snd (authorize test_config test_platform
            [(''prompt'', ''consent'')] (service_over Map.empty)))) = Some state
      \<and> (''response_type'', ''code'') \<in> set appended
      \<and> (''client_id'', ''c1'') \<in> set appended
      \<and> (''code_challenge_method'', ''S256'') \<in> set appended
      \<and> (''state'', state) \<in> set appended
      \<and> (''prompt'', ''consent'') \<in> set appended)"
proof -
  have v: "valid_config test_platform test_config"
    by (simp add: valid_config_def test_platform_def test_config_def test_parseURL_def)
  from authorize_url [OF v, of "[(''prompt'', ''consent'')]" "service_over Map.empty"]
  obtain base appended state verifier where
    loc: "location_href (snd (authorize test_config test_platform [(''prompt'', ''consent'')]
            (service_over Map.empty)))
          = Some (Serialized (base\<lparr>searchParams := searchParams base @ appended\<rparr>))"
    and st: "getState (tokenStorage (snd (authorize test_config test_platform
            [(''prompt'', ''consent'')] (service_over Map.empty)))) = Some state"
    and e: "\<And>k v. ((k, v) \<in> set appended) =
          (case map_of (rev [(''prompt'', ''consent'')]) k of
             Some v' \<Rightarrow> v = v'
           | None \<Rightarrow>
               (k, v) \<in> set
                 [(''response_type'', ''code''),
                  (''client_id'', clientId test_config),
                  (''redirect_uri'', redirectUri test_config),
                  (''scope'', config_scope test_config),
                  (''state'', state),
                  (''code_challenge'',
                   base64url_nopad (digest test_platform (encode verifier))),
                  (''code_challenge_method'', ''S256'')])"
    by blast
  have "(''response_type'', ''code'') \<in> set appended"
    and "(''client_id'', ''c1'') \<in> set appended"
    and "(''code_challenge_method'', ''S256'') \<in> set appended"
    and "(''state'', state) \<in> set appended"
    and "(''prompt'', ''consent'') \<in> set appended"
    by (simp_all add: e test_config_def)
  with v loc st show ?thesis by blast
qed

text \<open>
  The claim as stated fails: extra parameters named \<open>state\<close> and \<open>code_challenge\<close>
  replace the generated values in the URL, while the storage keeps the generated
  state (32 characters \<open>A\<close> from the zero bytes of the test platform).
\<close>

theorem authorize_override_counterexample:
  "fst (authorize test_config test_platform
          [(''state'', ''evil''), (''code_challenge'', ''chosen'')] (service_over Map.empty))
     = Fulfilled
   \<and> getState (tokenStorage (snd (authorize test_config test_platform
          [(''state'', ''evil''), (''code_challenge'', ''chosen'')] (service_over Map.empty))))
     = Some (replicate 32 CHR ''A'')
   \<and> location_href (snd (authorize test_config test_platform
          [(''state'', ''evil''), (''code_challenge'', ''chosen'')] (service_over Map.empty)))
     = Some (Serialized
         \<lparr>href_base = ''https://a/authorize'',
          searchParams =
            [(''response_type'', ''code''), (''client_id'', ''c1''),
             (''redirect_uri'', ''https://app/cb''), (''scope'', []),
             (''state'', ''evil''),
             (''code_challenge'', ''chosen''),
             (''code_challenge_method'', ''S256'')]\<rparr>)"
  by code_simp



section \<open>\<open>logout\<close> and the read path\<close>

lemma logout_ok: "valid_config env cfg \<Longrightarrow> fst (logout cfg env redirectTo st) = None"
  by (auto simp: logout_def valid_config_def buildUrl_def Let_def split: option.splits)

lemma logout_storage:
  "tokenStorage (snd (logout cfg env redirectTo st)) = clear (tokenStorage st)"
  by (simp add: logout_def buildUrl_def Let_def when_truthy_def split: option.splits)

lemma logout_events:
  "events (snd (logout cfg env redirectTo st)) = events st @ [AuthStateChange False]"
  by (simp add: logout_def buildUrl_def Let_def when_truthy_def split: option.splits)

lemma logout_frame:
  "requests (snd (logout cfg env redirectTo st)) = requests st"
  "refreshPromise (snd (logout cfg env redirectTo st)) = refreshPromise st"
  "promises (snd (logout cfg env redirectTo st)) = promises st"
  "next_promise (snd (logout cfg env redirectTo st)) = next_promise st"
  "refreshTimer (snd (logout cfg env redirectTo st)) = None"
  by (simp_all add: logout_def buildUrl_def Let_def when_truthy_def split: option.splits)

lemma cleared_session:
  assumes "tokenStorage st' = clear ts"
  shows "getAccessToken_storage (tokenStorage st') = None
    \<and> getRefreshToken (tokenStorage st') = None
    \<and> getIdToken (tokenStorage st') = None
    \<and> getScope (tokenStorage st') = None
    \<and> getExpiresAt (tokenStorage st') = None
    \<and> getCodeVerifier (tokenStorage st') = None
    \<and> getState (tokenStorage st') = None"
  by (simp add: assms getter_defs getExpiresAt_def getItem_clear STORAGE_KEYS_def)

text \<open>
  Claim C5, as amended. Under a valid configuration, in every state in which a
  non-empty access token is stored together with an \<open>expires_at\<close> value that is not
  zero and not later than the time of the call, \<open>getAccessToken()\<close> returns absent,
  removes every storage key of the library (access token, refresh token, ID token,
  scope and \<open>expires_at\<close>, and the transient verifier and state) and notifies
  \<open>onAuthStateChange(false)\<close>, without any call of \<open>logout\<close> by the caller.
\<close>

theorem lazy_expiry:
  assumes "valid_config env cfg"
    and "getAccessToken_storage (tokenStorage st) = Some token" and "token \<noteq> []"
    and "getExpiresAt (tokenStorage st) = Some (Num expiresAt)"
    and "expiresAt \<noteq> 0" and "expiresAt \<le> now"
  shows "fst (getAccessToken cfg env now st) = Inr None
    \<and> (\<forall>key \<in> set STORAGE_KEYS.
          getItem (tokenStorage (snd (getAccessToken cfg env now st))) key = None)
    \<and> events (snd (getAccessToken cfg env now st)) = events st @ [AuthStateChange False]
    \<and> getAccessToken_storage (tokenStorage (snd (getAccessToken cfg env now st))) = None
    \<and> getRefreshToken (tokenStorage (snd (getAccessToken cfg env now st))) = None
    \<and> getIdToken (tokenStorage (snd (getAccessToken cfg env now st))) = None
    \<and> getScope (tokenStorage (snd (getAccessToken cfg env now st))) = None
    \<and> getExpiresAt (tokenStorage (snd (getAccessToken cfg env now st))) = None
    \<and> getCodeVerifier (tokenStorage (snd (getAccessToken cfg env now st))) = None
    \<and> getState (tokenStorage (snd (getAccessToken cfg env now st))) = None"
proof -
  obtain e st' where l: "logout cfg env None st = (e, st')"
    by (cases "logout cfg env None st")
  have e: "e = None"
    using logout_ok [OF assms(1), of None st] l by simp
  have st': "tokenStorage st' = clear (tokenStorage st)"
    "events st' = events st @ [AuthStateChange False]"
    using logout_storage [of cfg env None st] logout_events [of cfg env None st] l by simp_all
  have "getAccessToken cfg env now st = (Inr None, st')"
    using assms(2-6) l e by (simp add: getAccessToken_def)
  then show ?thesis
    using st' cleared_session [OF st'(1)] by (simp add: getItem_clear)
qed

theorem lazy_expiry_witness:
  "valid_config test_platform test_config
   \<and> getAccessToken_storage (tokenStorage (session_expiring ''5000'')) = Some ''A1''
   \<and> getExpiresAt (tokenStorage (session_expiring ''5000'')) = Some (Num 5000)
   \<and> fst (getAccessToken test_config test_platform 9000 (session_expiring ''5000'')) = Inr None
   \<and> getItem (tokenStorage (snd (getAccessToken test_config test_platform 9000
        (session_expiring ''5000'')))) ACCESS_TOKEN = None
   \<and> getItem (tokenStorage (snd (getAccessToken test_config test_platform 9000
        (session_expiring ''5000'')))) REFRESH_TOKEN = None
   \<and> getItem (tokenStorage (snd (getAccessToken test_config test_platform 9000
        (session_expiring ''5000'')))) EXPIRES_AT = None
   \<and> getIdToken (tokenStorage full_session) = Some ''I1''
   \<and> getScope (tokenStorage full_session) = Some ''openid''
   \<and> getIdToken (tokenStorage (snd (getAccessToken test_config test_platform 9000
        full_session))) = None
   \<and> getScope (tokenStorage (snd (getAccessToken test_config test_platform 9000
        full_session))) = None"
proof -
  have v: "valid_config test_platform test_config"
    by (simp add: valid_config_def test_platform_def test_config_def test_parseURL_def)
  have ft: "getAccessToken_storage (tokenStorage full_session) = Some ''A1''"
    by code_simp
  have fx: "getExpiresAt (tokenStorage full_session) = Some (Num 5000)"
    by code_simp
  have fi: "getIdToken (tokenStorage full_session) = Some ''I1''"
    "getScope (tokenStorage full_session) = Some ''openid''"
    by code_simp+
  have full: "getIdToken (tokenStorage (snd (getAccessToken test_config test_platform 9000
        full_session))) = None
    \<and> getScope (tokenStorage (snd (getAccessToken test_config test_platform 9000
        full_session))) = None"
    using lazy_expiry [OF v ft _ fx, of 9000] by simp
  have t: "getAccessToken_storage (tokenStorage (session_expiring ''5000'')) = Some ''A1''"
    by code_simp
  have x: "getExpiresAt (tokenStorage (session_expiring ''5000'')) = Some (Num 5000)"
    by code_simp
  have "fst (getAccessToken test_config test_platform 9000 (session_expiring ''5000''))
      = Inr None
    \<and> (\<forall>key \<in> set STORAGE_KEYS.
          getItem (tokenStorage (snd (getAccessToken test_config test_platform 9000
            (session_expiring ''5000'')))) key = None)"
    using lazy_expiry [OF v t _ x, of 9000] by simp
  then show ?thesis
    using v t x fi full by (simp add: STORAGE_KEYS_def)
qed

text \<open>
  The claim as stated fails at an \<open>expires_at\<close> of zero, the epoch, which lies in the
  past at time 9000: the guard \<open>token && expiresAt && ...\<close> takes the number zero for
  an absent expiry, so the token is returned and nothing is cleared. It takes an
  empty access token for an absent one as well: with an \<open>expires_at\<close> of 5000 the
  empty string is returned and nothing is cleared.
\<close>

theorem lazy_expiry_counterexample:
  "getExpiresAt (tokenStorage (session_expiring ''0'')) = Some (Num 0)
   \<and> fst (getAccessToken test_config test_platform 9000 (session_expiring ''0''))
     = Inr (Some ''A1'')
   \<and> getItem (tokenStorage (snd (getAccessToken test_config test_platform 9000
        (session_expiring ''0'')))) ACCESS_TOKEN = Some ''A1''
   \<and> events (snd (getAccessToken test_config test_platform 9000 (session_expiring ''0''))) = []
   \<and> getExpiresAt (tokenStorage
        (service_over [''oauth2_access_token'' \<mapsto> [], ''oauth2_expires_at'' \<mapsto> ''5000'']))
     = Some (Num 5000)
   \<and> fst (getAccessToken test_config test_platform 9000
        (service_over [''oauth2_access_token'' \<mapsto> [], ''oauth2_expires_at'' \<mapsto> ''5000'']))
     = Inr (Some [])
   \<and> getItem (tokenStorage (snd (getAccessToken test_config test_platform 9000
        (service_over [''oauth2_access_token'' \<mapsto> [], ''oauth2_expires_at'' \<mapsto> ''5000''])))) EXPIRES_AT
     = Some ''5000''"
  by code_simp

text \<open>
  Claim C10, as amended. In every state in which an access token is stored and no
  \<open>expires_at\<close> value is stored, at every time, \<open>getAccessToken()\<close> returns the stored
  token and changes nothing, so the read path never expires or clears such a
  session; \<open>isAuthenticated()\<close> returns true when the stored token is not the empty
  string, and false when it is.
\<close>

theorem no_expiry_never_expires:
  assumes "getAccessToken_storage (tokenStorage st) = Some token"
    and "getItem (tokenStorage st) EXPIRES_AT = None"
  shows "getAccessToken cfg env now st = (Inr (Some token), st)
    \<and> isAuthenticated cfg env now st = (Inr (token \<noteq> []), st)"
  using assms by (simp add: getAccessToken_def isAuthenticated_def getExpiresAt_def)

theorem no_expiry_never_expires_witness:
  "getAccessToken_storage (tokenStorage (session_without_expiry ''A1'')) = Some ''A1''
   \<and> getItem (tokenStorage (session_without_expiry ''A1'')) EXPIRES_AT = None
   \<and> getAccessToken test_config test_platform 9000 (session_without_expiry ''A1'')
       = (Inr (Some ''A1''), session_without_expiry ''A1'')
   \<and> isAuthenticated test_config test_platform 9000 (session_without_expiry ''A1'')
       = (Inr True, session_without_expiry ''A1'')"
proof -
  have t: "getAccessToken_storage (tokenStorage (session_without_expiry ''A1'')) = Some ''A1''"
    by code_simp
  have x: "getItem (tokenStorage (session_without_expiry ''A1'')) EXPIRES_AT = None"
    by code_simp
  show ?thesis
    using t x no_expiry_never_expires [OF t x, of test_config test_platform 9000] by simp
qed

text \<open>
  The claim as stated fails when the stored access token is the empty string:
  \<open>isAuthenticated()\<close> is \<open>!!token\<close>, and the empty string is falsy.
\<close>

theorem no_expiry_counterexample:
  "getAccessToken_storage (tokenStorage (session_without_expiry [])) = Some []
   \<and> getItem (tokenStorage (session_without_expiry [])) EXPIRES_AT = None
   \<and> fst (isAuthenticated test_config test_platform 9000 (session_without_expiry []))
       = Inr False"
  by code_simp

section \<open>Storing a token set\<close>

lemma schedule_frame:
  "tokenStorage (scheduleTokenRefresh cfg now st) = tokenStorage st"
  "events (scheduleTokenRefresh cfg now st) = events st"
  "requests (scheduleTokenRefresh cfg now st) = requests st"
  "promises (scheduleTokenRefresh cfg now st) = promises st"
  "refreshPromise (scheduleTokenRefresh cfg now st) = refreshPromise st"
  "next_promise (scheduleTokenRefresh cfg now st) = next_promise st"
  by (simp_all add: scheduleTokenRefresh_def Let_def split: option.splits jsnum.splits)

lemma storeTokens_frame:
  "events (storeTokens now tokens st) = events st"
  "requests (storeTokens now tokens st) = requests st"
  "promises (storeTokens now tokens st) = promises st"
  "refreshPromise (storeTokens now tokens st) = refreshPromise st"
  "next_promise (storeTokens now tokens st) = next_promise st"
  by (simp_all add: storeTokens_def Let_def)

lemma getItem_when_truthy:
  "getItem (when_truthy v (setItem k) ts) k' =
     (if truthy v \<and> k' = k then v else getItem ts k')"
  by (cases v) (simp_all add: when_truthy_def getItem_setItem)

lemma storeTokens_eq:
  "tokenStorage (storeTokens now tokens st) =
     (case expires_in tokens of
        None \<Rightarrow> (\<lambda>ts. ts)
      | Some n \<Rightarrow> if n \<noteq> 0 then setItem EXPIRES_AT (number_toString (now + n * 1000)) else (\<lambda>ts. ts))
     (when_truthy (scope tokens) (setItem SCOPE)
       (when_truthy (id_token tokens) (setItem ID_TOKEN)
         (when_truthy (refresh_token tokens) (setItem REFRESH_TOKEN)
           (setItem ACCESS_TOKEN (access_token tokens) (tokenStorage st)))))"
proof -
  have "setRefreshToken = setItem REFRESH_TOKEN" "setIdToken = setItem ID_TOKEN"
    "setScope = setItem SCOPE"
    by (simp_all add: fun_eq_iff setter_defs)
  then show ?thesis
    by (simp add: storeTokens_def Let_def setAccessToken_def setExpiresAt_def split: option.splits)
qed

lemma storeTokens_access:
  "getAccessToken_storage (tokenStorage (storeTokens now tokens st)) = Some (access_token tokens)"
  by (simp add: storeTokens_eq getAccessToken_storage_def getItem_setItem getItem_when_truthy
      key_defs split: option.splits)

lemma storeTokens_refresh:
  "getRefreshToken (tokenStorage (storeTokens now tokens st)) =
     (if truthy (refresh_token tokens) then refresh_token tokens
      else getRefreshToken (tokenStorage st))"
  by (simp add: storeTokens_eq getRefreshToken_def getItem_setItem getItem_when_truthy
      key_defs split: option.splits)

lemma storeTokens_expires_item:
  "getItem (tokenStorage (storeTokens now tokens st)) EXPIRES_AT =
     (case expires_in tokens of
        None \<Rightarrow> getItem (tokenStorage st) EXPIRES_AT
      | Some n \<Rightarrow> if n \<noteq> 0 then Some (number_toString (now + n * 1000))
                  else getItem (tokenStorage st) EXPIRES_AT)"
  by (simp add: storeTokens_eq getItem_setItem getItem_when_truthy
      key_defs split: option.splits)

lemma storeTokens_expires:
  assumes "\<forall>n. expires_in tokens = Some n \<and> n \<noteq> 0 \<longrightarrow> safe_integer (now + n * 1000)"
  shows "getExpiresAt (tokenStorage (storeTokens now tokens st)) =
     (case expires_in tokens of
        None \<Rightarrow> getExpiresAt (tokenStorage st)
      | Some n \<Rightarrow> if n \<noteq> 0 then Some (Num (now + n * 1000))
                  else getExpiresAt (tokenStorage st))"
  using assms
  by (simp add: getExpiresAt_def storeTokens_expires_item parseInt_number_toString
      number_toString_nonempty split: option.splits)

lemma storeTokens_transient:
  "getState (tokenStorage (storeTokens now tokens st)) = getState (tokenStorage st)"
  "getCodeVerifier (tokenStorage (storeTokens now tokens st)) = getCodeVerifier (tokenStorage st)"
  by (simp_all add: storeTokens_eq getter_defs getItem_setItem getItem_when_truthy
      key_defs split: option.splits)


section \<open>\<open>refreshAccessToken\<close>, one call at a time\<close>

lemmas refresh_defs = refreshAccessToken_def refreshAccessToken_call_def
  performRefresh_begin_def refresh_settle_def performRefresh_resume_def
  refreshAccessToken_finally_def send_request_def receive_def Let_def

lemma refresh_ok:
  assumes "refreshPromise st = None" and "getRefreshToken (tokenStorage st) = Some r"
    and "r \<noteq> []"
  shows "fst (refreshAccessToken cfg env now (ResponseOk tokens) st) = Some Fulfilled"
    and "tokenStorage (snd (refreshAccessToken cfg env now (ResponseOk tokens) st))
      = tokenStorage (storeTokens now tokens st)"
    and "events (snd (refreshAccessToken cfg env now (ResponseOk tokens) st))
      = events st @ [TokenRefresh tokens]"
    and "requests (snd (refreshAccessToken cfg env now (ResponseOk tokens) st))
      = requests st @ [refresh_request cfg r]"
    and "refreshPromise (snd (refreshAccessToken cfg env now (ResponseOk tokens) st)) = None"
  using assms
  by (simp_all add: refresh_defs schedule_frame storeTokens_frame storeTokens_eq)

lemma refresh_failed:
  assumes "refreshPromise st = None" and "getRefreshToken (tokenStorage st) = Some r"
    and "r \<noteq> []" and "receive resp = Inl e"
  shows "\<exists>e'. fst (refreshAccessToken cfg env now resp st) = Some (Rejected e')"
    and "valid_config env cfg \<Longrightarrow>
      fst (refreshAccessToken cfg env now resp st) = Some (Rejected e)"
    and "tokenStorage (snd (refreshAccessToken cfg env now resp st)) = clear (tokenStorage st)"
    and "events (snd (refreshAccessToken cfg env now resp st))
      = events st @ [AuthStateChange False]"
    and "requests (snd (refreshAccessToken cfg env now resp st))
      = requests st @ [refresh_request cfg r]"
    and "refreshPromise (snd (refreshAccessToken cfg env now resp st)) = None"
proof -
  define st1 where "st1 = (st\<lparr>next_promise := Suc (next_promise st),
      promises := (promises st)(next_promise st := None),
      requests := requests st @ [refresh_request cfg r],
      refreshPromise := Some (next_promise st)\<rparr>)"
  obtain x st2 where l: "logout cfg env None st1 = (x, st2)"
    by (cases "logout cfg env None st1")
  have st2: "tokenStorage st2 = clear (tokenStorage st)"
    "events st2 = events st @ [AuthStateChange False]"
    "requests st2 = requests st @ [refresh_request cfg r]"
    using logout_storage [of cfg env None st1] logout_events [of cfg env None st1]
      logout_frame(1) [of cfg env None st1] l
    by (simp_all add: st1_def)
  have x: "valid_config env cfg \<Longrightarrow> x = None"
    using logout_ok [of env cfg None st1] l by simp
  have run: "refreshAccessToken cfg env now resp st =
      (Some (Rejected (case x of None \<Rightarrow> e | Some e' \<Rightarrow> e')),
       st2\<lparr>promises := (promises st2)(next_promise st \<mapsto>
              Rejected (case x of None \<Rightarrow> e | Some e' \<Rightarrow> e')),
           refreshPromise := None\<rparr>)"
    using assms l
    by (simp add: refreshAccessToken_def refreshAccessToken_call_def performRefresh_begin_def
        refresh_settle_def performRefresh_resume_def refreshAccessToken_finally_def
        send_request_def Let_def st1_def split: option.splits)
  show "\<exists>e'. fst (refreshAccessToken cfg env now resp st) = Some (Rejected e')"
    by (simp add: run)
  show "valid_config env cfg \<Longrightarrow>
      fst (refreshAccessToken cfg env now resp st) = Some (Rejected e)"
    using x by (simp add: run)
  show "tokenStorage (snd (refreshAccessToken cfg env now resp st)) = clear (tokenStorage st)"
    and "events (snd (refreshAccessToken cfg env now resp st))
      = events st @ [AuthStateChange False]"
    and "requests (snd (refreshAccessToken cfg env now resp st))
      = requests st @ [refresh_request cfg r]"
    and "refreshPromise (snd (refreshAccessToken cfg env now resp st)) = None"
    by (simp_all add: run st2)
qed

lemma refresh_no_token:
  assumes "refreshPromise st = None" and "\<not> truthy (getRefreshToken (tokenStorage st))"
  shows "fst (refreshAccessToken cfg env now resp st)
      = Some (Rejected (Error ''No refresh token available''))"
    and "tokenStorage (snd (refreshAccessToken cfg env now resp st)) = tokenStorage st"
    and "events (snd (refreshAccessToken cfg env now resp st)) = events st"
    and "requests (snd (refreshAccessToken cfg env now resp st)) = requests st"
    and "refreshTimer (snd (refreshAccessToken cfg env now resp st)) = refreshTimer st"
    and "location_href (snd (refreshAccessToken cfg env now resp st)) = location_href st"
    and "refreshPromise (snd (refreshAccessToken cfg env now resp st)) = None"
  using assms
  by (cases "getRefreshToken (tokenStorage st)"; simp add: refresh_defs)+

section \<open>\<open>handleCallback\<close>\<close>

lemma exchange_ok:
  "exchangeCodeForToken cfg now (ResponseOk tokens) authCode codeVerifier st = (x, st') \<Longrightarrow>
     x = None
     \<and> tokenStorage st' = tokenStorage (storeTokens now tokens st)
     \<and> events st' = events st @ [AuthStateChange True]
     \<and> requests st' = requests st @ [exchange_request cfg authCode codeVerifier]"
  by (auto simp: exchangeCodeForToken_def makeTokenRequest_def receive_def send_request_def
      Let_def schedule_frame storeTokens_frame storeTokens_eq)

lemma exchange_failed:
  "receive resp = Inl e \<Longrightarrow>
   exchangeCodeForToken cfg now resp authCode codeVerifier st =
     (Some e, st\<lparr>requests := requests st @ [exchange_request cfg authCode codeVerifier]\<rparr>)"
  by (simp add: exchangeCodeForToken_def makeTokenRequest_def send_request_def Let_def)

lemma receive_cases:
  "(\<exists>tokens. resp = ResponseOk tokens) \<or> (\<exists>e. receive resp = Inl e)"
  by (cases resp) (simp_all add: receive_def)

lemma handleCallback_Fulfilled:
  assumes "handleCallback cfg env now resp url st = (Fulfilled, st')"
  shows "\<exists>tokens params authCode codeVerifier.
      resp = ResponseOk tokens
    \<and> parseQueryParams env (callback_url env url) = Inr params
    \<and> \<not> truthy (get_property params ''error'')
    \<and> get_property params ''code'' = Some authCode
    \<and> getCodeVerifier (tokenStorage st) = Some codeVerifier
    \<and> tokenStorage st' = clearTemporary (tokenStorage (storeTokens now tokens st))
    \<and> events st' = events st @ [AuthStateChange True]
    \<and> requests st' = requests st @ [exchange_request cfg authCode codeVerifier]"
proof -
  obtain params where p: "parseQueryParams env (callback_url env url) = Inr params"
    using assms by (auto simp: handleCallback_def split: sum.splits)
  have ne: "\<not> truthy (get_property params ''error'')"
    using assms p
    by (auto simp: handleCallback_def Let_def split: option.splits if_splits)
  obtain storedState where s: "getState (tokenStorage st) = Some storedState"
    using assms p ne
    by (auto simp: handleCallback_def Let_def split: option.splits if_splits)
  obtain authCode codeVerifier where c: "get_property params ''code'' = Some authCode"
    and v: "getCodeVerifier (tokenStorage st) = Some codeVerifier"
    and nz: "authCode \<noteq> []" "codeVerifier \<noteq> []"
    using assms p ne s
    by (auto simp: handleCallback_def Let_def
        split: option.splits if_splits prod.splits)
  obtain x st1 where ex: "exchangeCodeForToken cfg now resp authCode codeVerifier st = (x, st1)"
    by (cases "exchangeCodeForToken cfg now resp authCode codeVerifier st")
  have fin: "x = None \<and> st' = st1\<lparr>tokenStorage := clearTemporary (tokenStorage st1)\<rparr>"
    using assms p ne s c v nz ex
    by (auto simp: handleCallback_def Let_def
        split: option.splits if_splits prod.splits)
  have "\<exists>tokens. resp = ResponseOk tokens"
  proof (rule ccontr)
    assume "\<not> (\<exists>tokens. resp = ResponseOk tokens)"
    then obtain e where "receive resp = Inl e" using receive_cases by blast
    then show False using ex fin exchange_failed [of resp e cfg now authCode codeVerifier st]
      by simp
  qed
  then obtain tokens where t: "resp = ResponseOk tokens" ..
  show ?thesis
    using p ne c v fin exchange_ok [OF ex [unfolded t]] t by simp
qed

lemma handleCallback_Rejected:
  assumes "handleCallback cfg env now resp url st = (Rejected e, st')"
  shows "tokenStorage st' = tokenStorage st \<and> events st' = events st
    \<and> (requests st' = requests st \<or> (\<exists>q. requests st' = requests st @ [q]))"
proof -
  have "exchangeCodeForToken cfg now resp a c st = (Some x, s1) \<Longrightarrow>
      tokenStorage s1 = tokenStorage st \<and> events s1 = events st
      \<and> requests s1 = requests st @ [exchange_request cfg a c]" for a c x s1
    using receive_cases [of resp] exchange_ok [of cfg now _ a c st "Some x" s1]
      exchange_failed [of resp _ cfg now a c st]
    by auto
  then show ?thesis
    using assms
    by (auto simp: handleCallback_def Let_def
        split: sum.splits option.splits if_splits prod.splits)
qed

text \<open>
  Claim C2, as amended. After \<open>handleCallback(url)\<close> has succeeded, the stored code
  verifier and the stored state are removed, and every later \<open>handleCallback\<close> with
  the same URL fails with the invalid-state error and leaves the service as it is, so
  it sends no token request. After \<open>handleCallback(url)\<close> has failed, the storage is
  as it was before the call: the verifier and the state are still there.
\<close>

theorem callback_replay:
  assumes "handleCallback cfg env now resp url st = (r, st')"
  shows "(r = Fulfilled \<longrightarrow>
            getState (tokenStorage st') = None
          \<and> getCodeVerifier (tokenStorage st') = None
          \<and> (\<forall>now' resp'. handleCallback cfg env now' resp' url st'
                = (Rejected (Error ''Invalid state parameter''), st')))
       \<and> (r \<noteq> Fulfilled \<longrightarrow> tokenStorage st' = tokenStorage st)"
proof (cases r)
  case Fulfilled
  from handleCallback_Fulfilled [OF assms [unfolded Fulfilled]]
  obtain tokens params where
    p: "parseQueryParams env (callback_url env url) = Inr params"
    and ne: "\<not> truthy (get_property params ''error'')"
    and ts: "tokenStorage st' = clearTemporary (tokenStorage (storeTokens now tokens st))"
    by blast
  have s: "getState (tokenStorage st') = None"
    and v: "getCodeVerifier (tokenStorage st') = None"
    by (simp_all add: ts getter_defs getItem_clearTemporary)
  have "handleCallback cfg env now' resp' url st'
      = (Rejected (Error ''Invalid state parameter''), st')" for now' resp'
    using ne by (cases "get_property params ''error''") (simp_all add: handleCallback_def p s)
  with s v Fulfilled show ?thesis by simp
next
  case (Rejected e)
  with handleCallback_Rejected [OF assms [unfolded Rejected]] show ?thesis by simp
qed

theorem callback_replay_witness:
  "fst (handleCallback test_config test_platform 1000
      (ResponseOk (test_tokens ''A1'' (Some 3600) None))
      (Some ''https://app/cb?code=XYZ&state=S1'') awaiting_callback) = Fulfilled
   \<and> getState (tokenStorage (snd (handleCallback test_config test_platform 1000
      (ResponseOk (test_tokens ''A1'' (Some 3600) None))
      (Some ''https://app/cb?code=XYZ&state=S1'') awaiting_callback))) = None
   \<and> getCodeVerifier (tokenStorage (snd (handleCallback test_config test_platform 1000
      (ResponseOk (test_tokens ''A1'' (Some 3600) None))
      (Some ''https://app/cb?code=XYZ&state=S1'') awaiting_callback))) = None
   \<and> handleCallback test_config test_platform 2000
      (ResponseOk (test_tokens ''A2'' (Some 3600) None))
      (Some ''https://app/cb?code=XYZ&state=S1'')
      (snd (handleCallback test_config test_platform 1000
        (ResponseOk (test_tokens ''A1'' (Some 3600) None))
        (Some ''https://app/cb?code=XYZ&state=S1'') awaiting_callback))
     = (Rejected (Error ''Invalid state parameter''),
        snd (handleCallback test_config test_platform 1000
          (ResponseOk (test_tokens ''A1'' (Some 3600) None))
          (Some ''https://app/cb?code=XYZ&state=S1'') awaiting_callback))"
proof -
  define first where "first = handleCallback test_config test_platform 1000
      (ResponseOk (test_tokens ''A1'' (Some 3600) None))
      (Some ''https://app/cb?code=XYZ&state=S1'') awaiting_callback"
  have ok: "fst first = Fulfilled"
    unfolding first_def by code_simp
  have run: "handleCallback test_config test_platform 1000
      (ResponseOk (test_tokens ''A1'' (Some 3600) None))
      (Some ''https://app/cb?code=XYZ&state=S1'') awaiting_callback = (fst first, snd first)"
    by (simp add: first_def)
  show ?thesis
    using callback_replay [OF run] ok unfolding first_def [symmetric] by simp
qed

text \<open>
  The claim as stated fails when the token endpoint does not answer: the first call
  is rejected and leaves state \<open>S1\<close> and verifier \<open>V1\<close> in storage, and the second
  call with the same URL succeeds after sending a second token request.
\<close>

theorem callback_replay_counterexample:
  "fst (handleCallback test_config test_platform 1000 NoResponse
      (Some ''https://app/cb?code=XYZ&state=S1'') awaiting_callback) = Rejected FetchFailed
   \<and> getState (tokenStorage (snd (handleCallback test_config test_platform 1000 NoResponse
      (Some ''https://app/cb?code=XYZ&state=S1'') awaiting_callback))) = Some ''S1''
   \<and> getCodeVerifier (tokenStorage (snd (handleCallback test_config test_platform 1000
      NoResponse (Some ''https://app/cb?code=XYZ&state=S1'') awaiting_callback))) = Some ''V1''
   \<and> fst (handleCallback test_config test_platform 2000
      (ResponseOk (test_tokens ''A1'' (Some 3600) None))
      (Some ''https://app/cb?code=XYZ&state=S1'')
      (snd (handleCallback test_config test_platform 1000 NoResponse
        (Some ''https://app/cb?code=XYZ&state=S1'') awaiting_callback))) = Fulfilled
   \<and> requests (snd (handleCallback test_config test_platform 2000
      (ResponseOk (test_tokens ''A1'' (Some 3600) None))
      (Some ''https://app/cb?code=XYZ&state=S1'')
      (snd (handleCallback test_config test_platform 1000 NoResponse
        (Some ''https://app/cb?code=XYZ&state=S1'') awaiting_callback))))
     = [exchange_request test_config ''XYZ'' ''V1'', exchange_request test_config ''XYZ'' ''V1'']"
  by code_simp

section \<open>Refresh outcomes\<close>

lemma unauthenticated_without_token:
  "getItem (tokenStorage st) ACCESS_TOKEN = None \<Longrightarrow>
   isAuthenticated cfg env now st = (Inr False, st)"
  by (simp add: isAuthenticated_def getAccessToken_def getAccessToken_storage_def)

lemma fixtures_idle:
  "refreshPromise (session_expiring x) = None"
  "refreshPromise refresh_only_session = None"
  "refreshPromise (service_over m) = None"
  "next_promise (session_expiring x) = 0"
  by (simp_all add: session_expiring_def refresh_only_session_def service_over_def)

lemma test_config_valid: "valid_config test_platform test_config"
  by (simp add: valid_config_def test_platform_def test_config_def test_parseURL_def)

text \<open>
  Claim C4. With no refresh in flight: whenever a refresh token is stored (a
  non-empty one, so that a request is sent) and the request to the token endpoint
  fails, \<open>refreshAccessToken()\<close> fails, with the endpoint's failure under a valid
  configuration, after exactly one request and a full logout: every storage key of
  the library is removed (access token, refresh token, ID token, scope and
  \<open>expires_at\<close>, and the transient verifier and state), so \<open>isAuthenticated()\<close> is false
  in the resulting state at every later time. Whenever no refresh token is stored (or an empty one),
  \<open>refreshAccessToken()\<close> fails with the no-refresh-token error, sends nothing and
  leaves storage, notifications, timer, location and in-flight marker as they were.
\<close>

theorem refresh_failure_logs_out:
  assumes "refreshPromise st = None"
  shows "(\<forall>r e. getRefreshToken (tokenStorage st) = Some r \<and> r \<noteq> [] \<and> receive resp = Inl e \<longrightarrow>
            (\<exists>e'. fst (refreshAccessToken cfg env now resp st) = Some (Rejected e'))
          \<and> (valid_config env cfg \<longrightarrow>
                fst (refreshAccessToken cfg env now resp st) = Some (Rejected e))
          \<and> requests (snd (refreshAccessToken cfg env now resp st))
              = requests st @ [refresh_request cfg r]
          \<and> getAccessToken_storage
              (tokenStorage (snd (refreshAccessToken cfg env now resp st))) = None
          \<and> getRefreshToken (tokenStorage (snd (refreshAccessToken cfg env now resp st))) = None
          \<and> getIdToken (tokenStorage (snd (refreshAccessToken cfg env now resp st))) = None
          \<and> getScope (tokenStorage (snd (refreshAccessToken cfg env now resp st))) = None
          \<and> getExpiresAt (tokenStorage (snd (refreshAccessToken cfg env now resp st))) = None
          \<and> getCodeVerifier (tokenStorage (snd (refreshAccessToken cfg env now resp st))) = None
          \<and> getState (tokenStorage (snd (refreshAccessToken cfg env now resp st))) = None
          \<and> events (snd (refreshAccessToken cfg env now resp st))
              = events st @ [AuthStateChange False]
          \<and> (\<forall>now'. isAuthenticated cfg env now' (snd (refreshAccessToken cfg env now resp st))
                = (Inr False, snd (refreshAccessToken cfg env now resp st))))
       \<and> (\<not> truthy (getRefreshToken (tokenStorage st)) \<longrightarrow>
            fst (refreshAccessToken cfg env now resp st)
              = Some (Rejected (Error ''No refresh token available''))
          \<and> tokenStorage (snd (refreshAccessToken cfg env now resp st)) = tokenStorage st
          \<and> requests (snd (refreshAccessToken cfg env now resp st)) = requests st
          \<and> events (snd (refreshAccessToken cfg env now resp st)) = events st
          \<and> refreshTimer (snd (refreshAccessToken cfg env now resp st)) = refreshTimer st
          \<and> location_href (snd (refreshAccessToken cfg env now resp st)) = location_href st
          \<and> refreshPromise (snd (refreshAccessToken cfg env now resp st)) = refreshPromise st)"
proof (intro conjI allI impI)
  fix r e
  assume h: "getRefreshToken (tokenStorage st) = Some r \<and> r \<noteq> [] \<and> receive resp = Inl e"
  note f = refresh_failed [OF assms, where r = r and resp = resp and e = e and cfg = cfg
      and env = env and now = now]
  show "\<exists>e'. fst (refreshAccessToken cfg env now resp st) = Some (Rejected e')"
    using h f(1) by simp
  show "fst (refreshAccessToken cfg env now resp st) = Some (Rejected e)"
    if "valid_config env cfg"
    using h f(2) that by simp
  show "requests (snd (refreshAccessToken cfg env now resp st))
      = requests st @ [refresh_request cfg r]"
    using h f(5) by simp
  have cleared: "tokenStorage (snd (refreshAccessToken cfg env now resp st))
      = clear (tokenStorage st)"
    using h f(3) by simp
  show "getAccessToken_storage
      (tokenStorage (snd (refreshAccessToken cfg env now resp st))) = None"
    and "getRefreshToken (tokenStorage (snd (refreshAccessToken cfg env now resp st))) = None"
    and "getIdToken (tokenStorage (snd (refreshAccessToken cfg env now resp st))) = None"
    and "getScope (tokenStorage (snd (refreshAccessToken cfg env now resp st))) = None"
    and "getExpiresAt (tokenStorage (snd (refreshAccessToken cfg env now resp st))) = None"
    and "getCodeVerifier (tokenStorage (snd (refreshAccessToken cfg env now resp st))) = None"
    and "getState (tokenStorage (snd (refreshAccessToken cfg env now resp st))) = None"
    using cleared_session [OF cleared] by simp_all
  show "events (snd (refreshAccessToken cfg env now resp st))
      = events st @ [AuthStateChange False]"
    using h f(4) by simp
  show "isAuthenticated cfg env now' (snd (refreshAccessToken cfg env now resp st))
      = (Inr False, snd (refreshAccessToken cfg env now resp st))" for now'
    by (rule unauthenticated_without_token) (simp add: cleared getItem_clear STORAGE_KEYS_def)
next
  assume n: "\<not> truthy (getRefreshToken (tokenStorage st))"
  note f = refresh_no_token [OF assms n, where cfg = cfg and env = env and now = now
      and resp = resp]
  show "fst (refreshAccessToken cfg env now resp st)
      = Some (Rejected (Error ''No refresh token available''))"
    and "tokenStorage (snd (refreshAccessToken cfg env now resp st)) = tokenStorage st"
    and "requests (snd (refreshAccessToken cfg env now resp st)) = requests st"
    and "events (snd (refreshAccessToken cfg env now resp st)) = events st"
    and "refreshTimer (snd (refreshAccessToken cfg env now resp st)) = refreshTimer st"
    and "location_href (snd (refreshAccessToken cfg env now resp st)) = location_href st"
    and "refreshPromise (snd (refreshAccessToken cfg env now resp st)) = refreshPromise st"
    using f assms by simp_all
qed

theorem refresh_failure_logs_out_witness:
  "valid_config test_platform test_config
   \<and> refreshPromise full_session = None
   \<and> getAccessToken_storage (tokenStorage full_session) = Some ''A1''
   \<and> getRefreshToken (tokenStorage full_session) = Some ''R1''
   \<and> getIdToken (tokenStorage full_session) = Some ''I1''
   \<and> getScope (tokenStorage full_session) = Some ''openid''
   \<and> getExpiresAt (tokenStorage full_session) = Some (Num 5000)
   \<and> receive (ResponseNotOk ''invalid_grant'' None None)
       = Inl (OAuth2Err ''invalid_grant'' None None)
   \<and> fst (refreshAccessToken test_config test_platform 1000
        (ResponseNotOk ''invalid_grant'' None None) full_session)
       = Some (Rejected (OAuth2Err ''invalid_grant'' None None))
   \<and> requests (snd (refreshAccessToken test_config test_platform 1000
        (ResponseNotOk ''invalid_grant'' None None) full_session))
       = [refresh_request test_config ''R1'']
   \<and> getAccessToken_storage (tokenStorage (snd (refreshAccessToken test_config test_platform
        1000 (ResponseNotOk ''invalid_grant'' None None) full_session))) = None
   \<and> getRefreshToken (tokenStorage (snd (refreshAccessToken test_config test_platform
        1000 (ResponseNotOk ''invalid_grant'' None None) full_session))) = None
   \<and> getIdToken (tokenStorage (snd (refreshAccessToken test_config test_platform
        1000 (ResponseNotOk ''invalid_grant'' None None) full_session))) = None
   \<and> getScope (tokenStorage (snd (refreshAccessToken test_config test_platform
        1000 (ResponseNotOk ''invalid_grant'' None None) full_session))) = None
   \<and> getExpiresAt (tokenStorage (snd (refreshAccessToken test_config test_platform
        1000 (ResponseNotOk ''invalid_grant'' None None) full_session))) = None
   \<and> storage (tokenStorage (snd (refreshAccessToken test_config test_platform
        1000 (ResponseNotOk ''invalid_grant'' None None) full_session)))
        ''oauth2_access_token'' = None
   \<and> storage (tokenStorage (snd (refreshAccessToken test_config test_platform
        1000 (ResponseNotOk ''invalid_grant'' None None) full_session)))
        ''oauth2_refresh_token'' = None
   \<and> storage (tokenStorage (snd (refreshAccessToken test_config test_platform
        1000 (ResponseNotOk ''invalid_grant'' None None) full_session)))
        ''oauth2_id_token'' = None
   \<and> storage (tokenStorage (snd (refreshAccessToken test_config test_platform
        1000 (ResponseNotOk ''invalid_grant'' None None) full_session)))
        ''oauth2_scope'' = None
   \<and> storage (tokenStorage (snd (refreshAccessToken test_config test_platform
        1000 (ResponseNotOk ''invalid_grant'' None None) full_session)))
        ''oauth2_expires_at'' = None
   \<and> isAuthenticated test_config test_platform 2000
        (snd (refreshAccessToken test_config test_platform 1000
          (ResponseNotOk ''invalid_grant'' None None) full_session))
       = (Inr False,
          snd (refreshAccessToken test_config test_platform 1000
            (ResponseNotOk ''invalid_grant'' None None) full_session))
   \<and> getRefreshToken (tokenStorage (service_over Map.empty)) = None
   \<and> fst (refreshAccessToken test_config test_platform 1000 NoResponse
        (service_over Map.empty))
       = Some (Rejected (Error ''No refresh token available''))
   \<and> requests (snd (refreshAccessToken test_config test_platform 1000 NoResponse
        (service_over Map.empty))) = []"
proof -
  have idle: "refreshPromise full_session = None"
    by (simp add: full_session_def service_over_def)
  have before: "getAccessToken_storage (tokenStorage full_session) = Some ''A1''"
    "getRefreshToken (tokenStorage full_session) = Some ''R1''"
    "getIdToken (tokenStorage full_session) = Some ''I1''"
    "getScope (tokenStorage full_session) = Some ''openid''"
    "getExpiresAt (tokenStorage full_session) = Some (Num 5000)"
    by code_simp+
  have raw: "storage (tokenStorage (snd (refreshAccessToken test_config test_platform
        1000 (ResponseNotOk ''invalid_grant'' None None) full_session)))
        ''oauth2_access_token'' = None
   \<and> storage (tokenStorage (snd (refreshAccessToken test_config test_platform
        1000 (ResponseNotOk ''invalid_grant'' None None) full_session)))
        ''oauth2_refresh_token'' = None
   \<and> storage (tokenStorage (snd (refreshAccessToken test_config test_platform
        1000 (ResponseNotOk ''invalid_grant'' None None) full_session)))
        ''oauth2_id_token'' = None
   \<and> storage (tokenStorage (snd (refreshAccessToken test_config test_platform
        1000 (ResponseNotOk ''invalid_grant'' None None) full_session)))
        ''oauth2_scope'' = None
   \<and> storage (tokenStorage (snd (refreshAccessToken test_config test_platform
        1000 (ResponseNotOk ''invalid_grant'' None None) full_session)))
        ''oauth2_expires_at'' = None"
    by code_simp
  have r0: "getRefreshToken (tokenStorage (service_over Map.empty)) = None"
    by code_simp
  have rc: "receive (ResponseNotOk ''invalid_grant'' None None)
      = Inl (OAuth2Err ''invalid_grant'' None None)"
    by (simp add: receive_def)
  have q0: "requests (service_over Map.empty) = []" "requests full_session = []"
    by (simp_all add: service_over_def full_session_def)
  show ?thesis
    using refresh_failure_logs_out [OF idle,
        where cfg = test_config and env = test_platform and now = 1000
        and resp = "ResponseNotOk ''invalid_grant'' None None"]
      refresh_failure_logs_out [OF fixtures_idle(3) [where m = Map.empty],
        where cfg = test_config and env = test_platform and now = 1000 and resp = NoResponse]
      test_config_valid idle before raw r0 rc q0
    by simp
qed

text \<open>
  Claim C6, as amended. For every successful refresh (none in flight, a refresh token
  stored) whose token response omits \<open>refresh_token\<close> or gives the empty string, the
  previously stored refresh token is left unchanged in storage; for every response
  with a non-empty \<open>refresh_token\<close>, the stored value is overwritten with the new one.
\<close>

theorem refresh_token_rotation:
  assumes "refreshPromise st = None" and "getRefreshToken (tokenStorage st) = Some r"
    and "r \<noteq> []"
  shows "fst (refreshAccessToken cfg env now (ResponseOk tokens) st) = Some Fulfilled
    \<and> getRefreshToken (tokenStorage (snd (refreshAccessToken cfg env now (ResponseOk tokens) st)))
        = (case refresh_token tokens of
             None \<Rightarrow> Some r
           | Some r' \<Rightarrow> if r' \<noteq> [] then Some r' else Some r)"
  using refresh_ok(1,2) [OF assms, where cfg = cfg and env = env and now = now
      and tokens = tokens] assms(2)
  by (simp add: storeTokens_refresh split: option.splits)

theorem refresh_token_rotation_witness:
  "getRefreshToken (tokenStorage (session_expiring ''5000'')) = Some ''R1''
   \<and> getRefreshToken (tokenStorage (snd (refreshAccessToken test_config test_platform 1000
        (ResponseOk (test_tokens ''A2'' (Some 3600) None)) (session_expiring ''5000''))))
       = Some ''R1''
   \<and> getRefreshToken (tokenStorage (snd (refreshAccessToken test_config test_platform 1000
        (ResponseOk (test_tokens ''A2'' (Some 3600) (Some ''R2''))) (session_expiring ''5000''))))
       = Some ''R2''"
proof -
  have r1: "getRefreshToken (tokenStorage (session_expiring ''5000'')) = Some ''R1''"
    by code_simp
  have ne: "''R1'' \<noteq> []" by simp
  show ?thesis
    using refresh_token_rotation [OF fixtures_idle(1) r1 ne, where cfg = test_config
        and env = test_platform and now = 1000 and tokens = "test_tokens ''A2'' (Some 3600) None"]
      refresh_token_rotation [OF fixtures_idle(1) r1 ne, where cfg = test_config
        and env = test_platform and now = 1000
        and tokens = "test_tokens ''A2'' (Some 3600) (Some ''R2'')"]
      r1
    by (simp add: test_tokens_def)
qed

text \<open>
  The claim as stated fails for a response that includes \<open>refresh_token\<close> with the
  empty string as its value: the guard \<open>if (tokens.refresh_token)\<close> is false, and the
  stored refresh token stays \<open>R1\<close>.
\<close>

theorem refresh_token_rotation_counterexample:
  "refresh_token (test_tokens ''A2'' (Some 3600) (Some [])) = Some []
   \<and> fst (refreshAccessToken test_config test_platform 1000
        (ResponseOk (test_tokens ''A2'' (Some 3600) (Some []))) (session_expiring ''5000''))
       = Some Fulfilled
   \<and> getRefreshToken (tokenStorage (snd (refreshAccessToken test_config test_platform 1000
        (ResponseOk (test_tokens ''A2'' (Some 3600) (Some []))) (session_expiring ''5000''))))
       = Some ''R1''"
  by code_simp

text \<open>
  Claim C8, as amended. Storing a token set issued at time \<open>now\<close> sets the access
  token, and sets \<open>expires_at\<close> to \<open>now + expires_in * 1000\<close> when the response carries
  an \<open>expires_in\<close> other than zero, provided \<open>now\<close>, \<open>expires_in * 1000\<close> and their sum
  are safe integers (at most \<open>2^53 - 1\<close> in magnitude), where the code's arithmetic and
  \<open>Number.toString\<close> are exact; when the response omits \<open>expires_in\<close> (or gives zero),
  the stored \<open>expires_at\<close> is left as it was, whatever an earlier response wrote. A
  successful code exchange and a successful refresh leave the access token and the
  \<open>expires_at\<close> of that store operation in storage.
\<close>

theorem stored_expiry:
  assumes "\<forall>n. expires_in tokens = Some n \<and> n \<noteq> 0 \<longrightarrow>
      safe_integer now \<and> safe_integer (n * 1000) \<and> safe_integer (now + n * 1000)"
  shows "getAccessToken_storage (tokenStorage (storeTokens now tokens st)) = Some (access_token tokens)
   \<and> getExpiresAt (tokenStorage (storeTokens now tokens st))
       = (case expires_in tokens of
            None \<Rightarrow> getExpiresAt (tokenStorage st)
          | Some n \<Rightarrow> if n \<noteq> 0 then Some (Num (now + n * 1000))
                      else getExpiresAt (tokenStorage st))
   \<and> (handleCallback cfg env now (ResponseOk tokens) url st = (Fulfilled, st') \<longrightarrow>
        getAccessToken_storage (tokenStorage st') = Some (access_token tokens)
      \<and> getExpiresAt (tokenStorage st') = getExpiresAt (tokenStorage (storeTokens now tokens st)))
   \<and> (refreshPromise st = None \<and> truthy (getRefreshToken (tokenStorage st)) \<longrightarrow>
        getAccessToken_storage
          (tokenStorage (snd (refreshAccessToken cfg env now (ResponseOk tokens) st)))
          = Some (access_token tokens)
      \<and> getExpiresAt
          (tokenStorage (snd (refreshAccessToken cfg env now (ResponseOk tokens) st)))
          = getExpiresAt (tokenStorage (storeTokens now tokens st)))"
proof (intro conjI impI)
  show "getAccessToken_storage (tokenStorage (storeTokens now tokens st))
      = Some (access_token tokens)"
    by (rule storeTokens_access)
  show "getExpiresAt (tokenStorage (storeTokens now tokens st))
       = (case expires_in tokens of
            None \<Rightarrow> getExpiresAt (tokenStorage st)
          | Some n \<Rightarrow> if n \<noteq> 0 then Some (Num (now + n * 1000))
                      else getExpiresAt (tokenStorage st))"
    by (rule storeTokens_expires) (use assms in simp)
next
  assume h: "handleCallback cfg env now (ResponseOk tokens) url st = (Fulfilled, st')"
  from handleCallback_Fulfilled [OF h]
  have ts: "tokenStorage st' = clearTemporary (tokenStorage (storeTokens now tokens st))"
    by auto
  show "getAccessToken_storage (tokenStorage st') = Some (access_token tokens)"
    using storeTokens_access [of now tokens st]
    by (simp add: ts getAccessToken_storage_def getItem_clearTemporary key_defs)
  show "getExpiresAt (tokenStorage st') = getExpiresAt (tokenStorage (storeTokens now tokens st))"
    by (simp add: ts getExpiresAt_def getItem_clearTemporary key_defs)
next
  assume h: "refreshPromise st = None \<and> truthy (getRefreshToken (tokenStorage st))"
  then obtain r where r: "getRefreshToken (tokenStorage st) = Some r" "r \<noteq> []"
    by (cases "getRefreshToken (tokenStorage st)") auto
  have ts: "tokenStorage (snd (refreshAccessToken cfg env now (ResponseOk tokens) st))
      = tokenStorage (storeTokens now tokens st)"
    using refresh_ok(2) [OF _ r] h by simp
  show "getAccessToken_storage
      (tokenStorage (snd (refreshAccessToken cfg env now (ResponseOk tokens) st)))
      = Some (access_token tokens)"
    by (simp add: ts storeTokens_access)
  show "getExpiresAt
      (tokenStorage (snd (refreshAccessToken cfg env now (ResponseOk tokens) st)))
      = getExpiresAt (tokenStorage (storeTokens now tokens st))"
    by (simp add: ts)
qed

theorem stored_expiry_witness:
  "expires_in (test_tokens ''A1'' (Some 3600) None) = Some 3600
   \<and> safe_integer 1000 \<and> safe_integer (3600 * 1000) \<and> safe_integer (1000 + 3600 * 1000)
   \<and> getExpiresAt (tokenStorage (storeTokens 1000 (test_tokens ''A1'' (Some 3600) None)
        awaiting_callback)) = Some (Num 3601000)
   \<and> fst (handleCallback test_config test_platform 1000
      (ResponseOk (test_tokens ''A1'' (Some 3600) None))
      (Some ''https://app/cb?code=XYZ&state=S1'') awaiting_callback) = Fulfilled
   \<and> getExpiresAt (tokenStorage (snd (handleCallback test_config test_platform 1000
      (ResponseOk (test_tokens ''A1'' (Some 3600) None))
      (Some ''https://app/cb?code=XYZ&state=S1'') awaiting_callback))) = Some (Num 3601000)
   \<and> getAccessToken_storage (tokenStorage (snd (handleCallback test_config test_platform 1000
      (ResponseOk (test_tokens ''A1'' (Some 3600) None))
      (Some ''https://app/cb?code=XYZ&state=S1'') awaiting_callback))) = Some ''A1''"
proof -
  define first where "first = handleCallback test_config test_platform 1000
      (ResponseOk (test_tokens ''A1'' (Some 3600) None))
      (Some ''https://app/cb?code=XYZ&state=S1'') awaiting_callback"
  have ok: "fst first = Fulfilled"
    unfolding first_def by code_simp
  have run: "handleCallback test_config test_platform 1000
      (ResponseOk (test_tokens ''A1'' (Some 3600) None))
      (Some ''https://app/cb?code=XYZ&state=S1'') awaiting_callback = (Fulfilled, snd first)"
    using ok by (simp add: first_def prod_eq_iff)
  have safe: "\<forall>n. expires_in (test_tokens ''A1'' (Some 3600) None) = Some n \<and> n \<noteq> 0 \<longrightarrow>
      safe_integer 1000 \<and> safe_integer (n * 1000) \<and> safe_integer (1000 + n * 1000)"
    by (simp add: test_tokens_def safe_integer_def)
  have nums: "safe_integer 1000" "safe_integer (3600 * 1000)"
    "safe_integer (1000 + 3600 * 1000)"
    by (simp_all add: safe_integer_def)
  show ?thesis
    using stored_expiry [where cfg = test_config and env = test_platform and now = 1000
        and tokens = "test_tokens ''A1'' (Some 3600) None"
        and url = "Some ''https://app/cb?code=XYZ&state=S1''" and st = awaiting_callback
        and st' = "snd first", OF safe] run ok nums
    unfolding first_def [symmetric]
    by (simp add: test_tokens_def)
qed

text \<open>
  The claim as stated fails for a response that omits \<open>expires_in\<close>: a refresh at
  time 9000 stores the new access token \<open>A2\<close>, and the \<open>expires_at\<close> of 5000 that an
  earlier response wrote stays attached to it.
\<close>

theorem stored_expiry_counterexample:
  "expires_in (test_tokens ''A2'' None None) = None
   \<and> getExpiresAt (tokenStorage (session_expiring ''5000'')) = Some (Num 5000)
   \<and> fst (refreshAccessToken test_config test_platform 9000
        (ResponseOk (test_tokens ''A2'' None None)) (session_expiring ''5000''))
       = Some Fulfilled
   \<and> getAccessToken_storage (tokenStorage (snd (refreshAccessToken test_config test_platform
        9000 (ResponseOk (test_tokens ''A2'' None None)) (session_expiring ''5000''))))
       = Some ''A2''
   \<and> getExpiresAt (tokenStorage (snd (refreshAccessToken test_config test_platform
        9000 (ResponseOk (test_tokens ''A2'' None None)) (session_expiring ''5000''))))
       = Some (Num 5000)"
  by code_simp

section \<open>Notifications\<close>

text \<open>
  Claim C9, as amended. \<open>onAuthStateChange(true)\<close> is invoked once by every
  successful code exchange and by nothing else; a failed \<open>handleCallback\<close> invokes
  no callback. \<open>onAuthStateChange(false)\<close> is invoked once by every \<open>logout\<close>,
  whether or not the session was authenticated before: the explicit call, the
  lazy-expiry detection in \<open>getAccessToken()\<close> (which otherwise invokes nothing),
  and a refresh whose request fails. With no refresh in flight, a successful refresh
  invokes \<open>onTokenRefresh\<close> once with the token response and does not invoke
  \<open>onAuthStateChange\<close>, also when it makes an unauthenticated session
  authenticated; a refresh without a stored refresh token invokes nothing; the code
  exchange never invokes \<open>onTokenRefresh\<close>.
\<close>

theorem callback_notifications:
  "(handleCallback cfg env now resp url st = (r, st') \<longrightarrow>
      events st' = events st @ (if r = Fulfilled then [AuthStateChange True] else []))
   \<and> events (snd (logout cfg env redirectTo st)) = events st @ [AuthStateChange False]
   \<and> events (snd (getAccessToken cfg env now st))
       = events st @
         (if truthy (getAccessToken_storage (tokenStorage st))
             \<and> truthy_num (getExpiresAt (tokenStorage st))
             \<and> now_ge now (getExpiresAt (tokenStorage st))
          then [AuthStateChange False] else [])
   \<and> (refreshPromise st = None \<longrightarrow>
        events (snd (refreshAccessToken cfg env now resp st))
          = events st @
            (if \<not> truthy (getRefreshToken (tokenStorage st)) then []
             else case receive resp of
                    Inr tokens \<Rightarrow> [TokenRefresh tokens]
                  | Inl e \<Rightarrow> [AuthStateChange False]))"
proof (intro conjI impI)
  assume h: "handleCallback cfg env now resp url st = (r, st')"
  show "events st' = events st @ (if r = Fulfilled then [AuthStateChange True] else [])"
  proof (cases r)
    case Fulfilled
    with handleCallback_Fulfilled [OF h [unfolded Fulfilled]] show ?thesis by auto
  next
    case (Rejected e)
    with handleCallback_Rejected [OF h [unfolded Rejected]] show ?thesis by simp
  qed
next
  show "events (snd (logout cfg env redirectTo st)) = events st @ [AuthStateChange False]"
    by (rule logout_events)
next
  show "events (snd (getAccessToken cfg env now st))
       = events st @
         (if truthy (getAccessToken_storage (tokenStorage st))
             \<and> truthy_num (getExpiresAt (tokenStorage st))
             \<and> now_ge now (getExpiresAt (tokenStorage st))
          then [AuthStateChange False] else [])"
    using logout_events [of cfg env None st]
    by (cases "logout cfg env None st") (auto simp: getAccessToken_def split: option.splits)
next
  assume p: "refreshPromise st = None"
  show "events (snd (refreshAccessToken cfg env now resp st))
      = events st @
        (if \<not> truthy (getRefreshToken (tokenStorage st)) then []
         else case receive resp of
                Inr tokens \<Rightarrow> [TokenRefresh tokens]
              | Inl e \<Rightarrow> [AuthStateChange False])"
  proof (cases "truthy (getRefreshToken (tokenStorage st))")
    case False
    then show ?thesis using refresh_no_token(3) [OF p] by simp
  next
    case True
    then obtain t where t: "getRefreshToken (tokenStorage st) = Some t" "t \<noteq> []"
      by (cases "getRefreshToken (tokenStorage st)") auto
    show ?thesis
    proof (cases "receive resp")
      case (Inl e)
      then show ?thesis using True refresh_failed(4) [OF p t] by simp
    next
      case (Inr tokens)
      then have "resp = ResponseOk tokens"
        by (cases resp) (simp_all add: receive_def)
      then show ?thesis using True Inr refresh_ok(3) [OF p t] by simp
    qed
  qed
qed

theorem callback_notifications_witness:
  "events (snd (handleCallback test_config test_platform 1000
      (ResponseOk (test_tokens ''A1'' (Some 3600) None))
      (Some ''https://app/cb?code=XYZ&state=S1'') awaiting_callback))
     = [AuthStateChange True]
   \<and> events (snd (refreshAccessToken test_config test_platform 1000
      (ResponseOk (test_tokens ''A2'' (Some 3600) None)) (session_expiring ''5000'')))
     = [TokenRefresh (test_tokens ''A2'' (Some 3600) None)]"
proof -
  define first where "first = handleCallback test_config test_platform 1000
      (ResponseOk (test_tokens ''A1'' (Some 3600) None))
      (Some ''https://app/cb?code=XYZ&state=S1'') awaiting_callback"
  have ok: "fst first = Fulfilled"
    unfolding first_def by code_simp
  have run: "handleCallback test_config test_platform 1000
      (ResponseOk (test_tokens ''A1'' (Some 3600) None))
      (Some ''https://app/cb?code=XYZ&state=S1'') awaiting_callback = (Fulfilled, snd first)"
    using ok by (simp add: first_def prod_eq_iff)
  have e0: "events awaiting_callback = []" "events (session_expiring ''5000'') = []"
    by (simp_all add: awaiting_callback_def session_expiring_def service_over_def)
  have r1: "getRefreshToken (tokenStorage (session_expiring ''5000'')) = Some ''R1''"
    by code_simp
  have "events (snd first) = [AuthStateChange True]"
    using callback_notifications [where cfg = test_config and env = test_platform
        and now = 1000 and resp = "ResponseOk (test_tokens ''A1'' (Some 3600) None)"
        and url = "Some ''https://app/cb?code=XYZ&state=S1''" and st = awaiting_callback
        and r = Fulfilled and st' = "snd first"] run e0
    by simp
  moreover have "events (snd (refreshAccessToken test_config test_platform 1000
      (ResponseOk (test_tokens ''A2'' (Some 3600) None)) (session_expiring ''5000'')))
     = [TokenRefresh (test_tokens ''A2'' (Some 3600) None)]"
    using callback_notifications [where cfg = test_config and env = test_platform
        and now = 1000 and resp = "ResponseOk (test_tokens ''A2'' (Some 3600) None)"
        and st = "session_expiring ''5000''"] fixtures_idle(1) [where x = "''5000''"] e0 r1
    by (simp add: receive_def)
  ultimately show ?thesis
    by (simp add: first_def)
qed

text \<open>
  The claim as stated fails in both directions. A \<open>logout()\<close> on a service that is
  not authenticated invokes \<open>onAuthStateChange(false)\<close>. A successful refresh on a
  storage that holds only a refresh token makes the session authenticated, and the
  only callback invoked is \<open>onTokenRefresh\<close>.
\<close>

theorem callback_notifications_counterexample:
  "fst (isAuthenticated test_config test_platform 1000 (service_over Map.empty)) = Inr False
   \<and> events (snd (logout test_config test_platform None (service_over Map.empty)))
       = [AuthStateChange False]
   \<and> fst (isAuthenticated test_config test_platform 1000 refresh_only_session) = Inr False
   \<and> fst (isAuthenticated test_config test_platform 2000
        (snd (refreshAccessToken test_config test_platform 1000
          (ResponseOk (test_tokens ''A2'' (Some 3600) None)) refresh_only_session)))
       = Inr True
   \<and> events (snd (refreshAccessToken test_config test_platform 1000
        (ResponseOk (test_tokens ''A2'' (Some 3600) None)) refresh_only_session))
       = [TokenRefresh (test_tokens ''A2'' (Some 3600) None)]"
  by code_simp

section \<open>Refresh calls that overlap\<close>

lemma resume_next_promise:
  "next_promise (performRefresh_resume cfg env now resp p s) = next_promise s"
  using logout_frame(4) [of cfg env None s]
  by (cases "logout cfg env None s")
     (auto simp: performRefresh_resume_def Let_def schedule_frame storeTokens_frame
      split: sum.splits option.splits)

lemma settle_fields:
  "refreshPromise (refresh_settle cfg env now resp p s) = None"
  "next_promise (refresh_settle cfg env now resp p s) = next_promise s"
  by (simp_all add: refresh_settle_def refreshAccessToken_finally_def resume_next_promise)

lemma settle_outcome: "promises (refresh_settle cfg env now resp p s) p \<noteq> None"
  by (cases "logout cfg env None s")
     (auto simp: refresh_settle_def refreshAccessToken_finally_def performRefresh_resume_def
      Let_def split: sum.splits option.splits)

lemma call_fresh:
  assumes "refreshPromise s = None"
  shows "fst (refreshAccessToken_call cfg s) = next_promise s"
    and "refreshPromise (snd (refreshAccessToken_call cfg s)) = Some (next_promise s)"
    and "next_promise (snd (refreshAccessToken_call cfg s)) = Suc (next_promise s)"
    and "getRefreshToken (tokenStorage s) = Some r \<and> r \<noteq> [] \<Longrightarrow>
         requests (snd (refreshAccessToken_call cfg s)) = requests s @ [refresh_request cfg r]
         \<and> promises (snd (refreshAccessToken_call cfg s)) (next_promise s) = None"
  using assms
  by (auto simp: refreshAccessToken_call_def performRefresh_begin_def send_request_def Let_def
      split: option.splits)

lemma call_joins: "refreshPromise s = Some q \<Longrightarrow> refreshAccessToken_call cfg s = (q, s)"
  by (simp add: refreshAccessToken_call_def)

text \<open>
  Claim C3. A call of \<open>refreshAccessToken()\<close> made while a refresh is in flight
  returns the promise of that refresh and changes nothing, so the caller receives the
  same outcome and no token request is sent; the settlement clears the in-flight
  marker for every response. Starting with no refresh in flight: the first call
  returns a new promise and sets the marker; a second call before the settlement
  returns the same promise and leaves the state of the first call, in which exactly
  one request has been added when a refresh token is stored; a single awaited call
  is the first call followed by the settlement, and its result is the outcome of
  that promise; after the settlement the outcome is known and the marker is clear,
  whether the refresh succeeded or failed; and the next call starts a new refresh
  with a new promise, sending a new request when a refresh token is still stored.
\<close>

theorem refresh_deduplicated:
  "(refreshPromise s = Some q \<longrightarrow> refreshAccessToken_call cfg s = (q, s))
   \<and> refreshPromise (refresh_settle cfg env now resp q s) = None
   \<and> (refreshPromise st = None \<longrightarrow>
        fst (refreshAccessToken_call cfg st) = next_promise st
      \<and> refreshPromise (snd (refreshAccessToken_call cfg st)) = Some (next_promise st)
      \<and> refreshAccessToken_call cfg (snd (refreshAccessToken_call cfg st))
          = (next_promise st, snd (refreshAccessToken_call cfg st))
      \<and> (\<forall>r. getRefreshToken (tokenStorage st) = Some r \<and> r \<noteq> [] \<longrightarrow>
            requests (snd (refreshAccessToken_call cfg st))
              = requests st @ [refresh_request cfg r]
          \<and> promises (snd (refreshAccessToken_call cfg st)) (next_promise st) = None)
      \<and> refreshAccessToken cfg env now resp st
          = (promises (refresh_settle cfg env now resp (next_promise st)
                         (snd (refreshAccessToken_call cfg st))) (next_promise st),
             refresh_settle cfg env now resp (next_promise st)
               (snd (refreshAccessToken_call cfg st)))
      \<and> promises (refresh_settle cfg env now resp (next_promise st)
                     (snd (refreshAccessToken_call cfg st))) (next_promise st) \<noteq> None
      \<and> refreshPromise (refresh_settle cfg env now resp (next_promise st)
                           (snd (refreshAccessToken_call cfg st))) = None
      \<and> fst (refreshAccessToken_call cfg
            (refresh_settle cfg env now resp (next_promise st)
               (snd (refreshAccessToken_call cfg st)))) = Suc (next_promise st)
      \<and> (\<forall>r'. getRefreshToken (tokenStorage
                  (refresh_settle cfg env now resp (next_promise st)
                     (snd (refreshAccessToken_call cfg st)))) = Some r' \<and> r' \<noteq> [] \<longrightarrow>
            requests (snd (refreshAccessToken_call cfg
                (refresh_settle cfg env now resp (next_promise st)
                   (snd (refreshAccessToken_call cfg st)))))
              = requests (refresh_settle cfg env now resp (next_promise st)
                   (snd (refreshAccessToken_call cfg st))) @ [refresh_request cfg r']))"
proof (intro conjI impI allI)
  show "refreshAccessToken_call cfg s = (q, s)" if "refreshPromise s = Some q"
    using that by (rule call_joins)
  show "refreshPromise (refresh_settle cfg env now resp q s) = None"
    by (rule settle_fields)
next
  assume n: "refreshPromise st = None"
  define p where "p = next_promise st"
  define st1 where "st1 = snd (refreshAccessToken_call cfg st)"
  define st2 where "st2 = refresh_settle cfg env now resp p st1"
  have c1: "fst (refreshAccessToken_call cfg st) = p" "refreshPromise st1 = Some p"
    "next_promise st1 = Suc p"
    using call_fresh(1-3) [OF n, of cfg] by (simp_all add: p_def st1_def)
  have s2: "refreshPromise st2 = None" "next_promise st2 = Suc p"
    using c1(3) by (simp_all add: st2_def settle_fields)
  show "fst (refreshAccessToken_call cfg st) = next_promise st"
    using c1(1) by (simp add: p_def)
  show "refreshPromise (snd (refreshAccessToken_call cfg st)) = Some (next_promise st)"
    using c1(2) by (simp add: p_def st1_def)
  show "refreshAccessToken_call cfg (snd (refreshAccessToken_call cfg st))
      = (next_promise st, snd (refreshAccessToken_call cfg st))"
    using call_joins [OF c1(2), of cfg] by (simp add: p_def st1_def)
  show "requests (snd (refreshAccessToken_call cfg st)) = requests st @ [refresh_request cfg r]"
    and "promises (snd (refreshAccessToken_call cfg st)) (next_promise st) = None"
    if "getRefreshToken (tokenStorage st) = Some r \<and> r \<noteq> []" for r
    using call_fresh(4) [OF n that, of cfg] by simp_all
  show "refreshAccessToken cfg env now resp st
      = (promises (refresh_settle cfg env now resp (next_promise st)
                     (snd (refreshAccessToken_call cfg st))) (next_promise st),
         refresh_settle cfg env now resp (next_promise st)
           (snd (refreshAccessToken_call cfg st)))"
    using c1(1) by (cases "refreshAccessToken_call cfg st") (simp add: refreshAccessToken_def p_def Let_def)
  show "promises (refresh_settle cfg env now resp (next_promise st)
      (snd (refreshAccessToken_call cfg st))) (next_promise st) \<noteq> None"
    by (rule settle_outcome)
  show "refreshPromise (refresh_settle cfg env now resp (next_promise st)
      (snd (refreshAccessToken_call cfg st))) = None"
    by (rule settle_fields)
  show "fst (refreshAccessToken_call cfg
      (refresh_settle cfg env now resp (next_promise st)
         (snd (refreshAccessToken_call cfg st)))) = Suc (next_promise st)"
    using call_fresh(1) [OF s2(1), of cfg] s2(2) by (simp add: st2_def st1_def p_def)
  show "requests (snd (refreshAccessToken_call cfg
        (refresh_settle cfg env now resp (next_promise st)
           (snd (refreshAccessToken_call cfg st)))))
      = requests (refresh_settle cfg env now resp (next_promise st)
           (snd (refreshAccessToken_call cfg st))) @ [refresh_request cfg r']"
    if "getRefreshToken (tokenStorage
          (refresh_settle cfg env now resp (next_promise st)
             (snd (refreshAccessToken_call cfg st)))) = Some r' \<and> r' \<noteq> []" for r'
    using call_fresh(4) [OF s2(1), of r' cfg] that by (simp add: st2_def st1_def p_def)
qed

theorem refresh_deduplicated_witness:
  "refreshPromise (session_expiring ''5000'') = None
   \<and> getRefreshToken (tokenStorage (session_expiring ''5000'')) = Some ''R1''
   \<and> refreshAccessToken_call test_config
        (snd (refreshAccessToken_call test_config (session_expiring ''5000'')))
       = (0, snd (refreshAccessToken_call test_config (session_expiring ''5000'')))
   \<and> requests (snd (refreshAccessToken_call test_config (session_expiring ''5000'')))
       = [refresh_request test_config ''R1'']
   \<and> refreshPromise (refresh_settle test_config test_platform 1000 NoResponse 0
        (snd (refreshAccessToken_call test_config (session_expiring ''5000'')))) = None
   \<and> fst (refreshAccessToken_call test_config
        (refresh_settle test_config test_platform 1000 NoResponse 0
          (snd (refreshAccessToken_call test_config (session_expiring ''5000''))))) = 1"
proof -
  have r1: "getRefreshToken (tokenStorage (session_expiring ''5000'')) = Some ''R1''"
    by code_simp
  have q0: "requests (session_expiring ''5000'') = []"
    by (simp add: session_expiring_def service_over_def)
  show ?thesis
    using refresh_deduplicated [where st = "session_expiring ''5000''" and cfg = test_config
        and env = test_platform and now = 1000 and resp = NoResponse]
      fixtures_idle(1,4) [where x = "''5000''"] r1 q0
    by simp
qed

end
